theory Spec2Isabelle
  imports Complex_Main
begin

section \<open>Risk assessment model for yield opportunities (risk-assessor.py)\<close>

text \<open>
  A shallow embedding of \<^verbatim>\<open>RiskAssessmentModel\<close>. Python numbers are idealised as
  \<^typ>\<open>real\<close> (finite values: rounding, infinities and integers beyond the range of a float
  are not modelled); the dictionary \<^verbatim>\<open>opportunity_data\<close> is a record whose fields are all
  optional (\<open>None\<close> is an absent key), so \<^verbatim>\<open>data.get(k, d)\<close> is \<open>dget (k data) d\<close>.
  Strings are byte strings, the UTF-8 encoding of Python's strings; the pictographs that start
  some messages are a symbol of their own. What the code takes from outside the repository is a
  parameter of the model: \<open>lower\<close> is the built-in \<^verbatim>\<open>str.lower()\<close> (on encoded strings),
  \<open>age_days\<close> is the pandas expression that gives the age of a date in days and \<open>clock\<close> gives
  the readings of \<^verbatim>\<open>pd.Timestamp.now()\<close>. Every property that is stated for a variable
  \<open>lower\<close>, \<open>age_days\<close> or \<open>clock\<close> holds for each such function, so for Python's and
  pandas' own.
\<close>

subsection \<open>Data model\<close>

datatype RiskCategory =
  SMART_CONTRACT | IMPERMANENT_LOSS | LIQUIDITY | PROTOCOL | MARKET | REGULATORY | ORACLE | BRIDGE

datatype fval = FNum real | FBool bool | FStr string

datatype symbol = WarningSign | Siren | MoneyBag | AlarmClock | ShieldSign

text \<open>A message is the sequence of pieces of the (formatted) string literal that builds it.\<close>

datatype part = Sym symbol | Lit string | Val real | Txt string

type_synonym message = "part list"

record RiskMetrics =
  category :: RiskCategory
  score :: real
  confidence :: real
  factors :: "(string \<times> fval) list"
  mitigation :: "message list"

record audit =
  firm :: "string option"
  date :: "string option"

record opportunity =
  audits :: "audit list option"
  bug_bounty_size :: "real option"
  contract_age_days :: "real option"
  known_vulnerabilities :: "real option"
  upgradeable :: "bool option"
  timelock_days :: "real option"
  is_lp_position :: "bool option"
  token1_volatility :: "real option"
  token2_volatility :: "real option"
  token_correlation :: "real option"
  il_protection :: "bool option"
  is_stable_pair :: "bool option"
  concentrated_liquidity :: "bool option"
  tvl :: "real option"
  volume_24h :: "real option"
  unique_liquidity_providers :: "real option"
  lock_period_days :: "real option"
  protocol_tvl :: "real option"
  protocol_age_days :: "real option"
  team_doxxed :: "bool option"
  previous_exploits :: "real option"
  token_types :: "string list option"
  btc_correlation :: "real option"
  sensitive_to_rates :: "bool option"
  restricted_regions :: "string list option"
  kyc_required :: "bool option"
  potential_security :: "bool option"
  oracle_provider :: "string option"
  multi_oracle :: "bool option"
  twap_enabled :: "bool option"
  uses_bridge :: "bool option"
  bridge_provider :: "string option"
  bridge_tvl :: "real option"
  bridge_hacked_before :: "bool option"
  apy :: "real option"

datatype error = KeyError string | ValueError string | TypeError string | OverflowError string

text \<open>
  The \<^verbatim>\<open>.days\<close> of a pandas time difference: a whole number of days, or the float
  \<^verbatim>\<open>nan\<close> when the date parsed to \<^verbatim>\<open>NaT\<close>.
\<close>

datatype day_count = Days int | NaN

text \<open>\<^verbatim>\<open>d.get(key, default)\<close> on an optional field.\<close>

definition dget :: "'a option \<Rightarrow> 'a \<Rightarrow> 'a" where
  "dget v dflt = (case v of None \<Rightarrow> dflt | Some x \<Rightarrow> x)"

text \<open>
  What \<^verbatim>\<open>str.lower()\<close> does on a string of ASCII characters: the letters A to Z are
  lower-cased, every other character is kept. It stands for the parameter \<open>lower\<close> in the
  closed examples, whose strings are all ASCII.
\<close>

definition lower_char :: "char \<Rightarrow> char" where
  "lower_char c =
     (let n = (of_char c :: nat) in if 65 \<le> n \<and> n \<le> 90 then char_of (n + 32) else c)"

definition lower_ascii :: "string \<Rightarrow> string" where
  "lower_ascii s = map lower_char s"

subsection \<open>Fixed tables\<close>

definition risk_weights :: "(RiskCategory \<times> real) list" where
  "risk_weights =
     [(SMART_CONTRACT, 0.25), (IMPERMANENT_LOSS, 0.20), (LIQUIDITY, 0.15), (PROTOCOL, 0.15),
      (MARKET, 0.10), (REGULATORY, 0.05), (ORACLE, 0.05), (BRIDGE, 0.05)]"

definition audit_firms :: "(string \<times> real) list" where
  "audit_firms =
     [(''certik'', 0.9), (''peckshield'', 0.85), (''trail_of_bits'', 0.9), (''consensys'', 0.85),
      (''openzeppelin'', 0.88), (''quantstamp'', 0.82), (''hacken'', 0.75)]"

subsection \<open>Smart-contract assessor\<close>

text \<open>
  The audit loop reads the clock once for every audit of a listed firm: \<open>clock k\<close> is the
  \<open>k\<close>-th reading of \<^verbatim>\<open>pd.Timestamp.now()\<close> in the call, in nanoseconds since the epoch.
  \<open>age_days now s\<close> is the pandas expression \<^verbatim>\<open>(now - pd.Timestamp(s)).days\<close>: the error that
  parsing the date \<open>s\<close> or subtracting it from \<open>now\<close> raises, or else the number of days.
  With \<^verbatim>\<open>nan\<close> days the age factor \<^verbatim>\<open>max(0.5, 1 - nan / 365)\<close> is 0.5, the first argument
  of \<^verbatim>\<open>max\<close>, since no comparison with \<^verbatim>\<open>nan\<close> holds.
\<close>

definition ns_per_day :: int where
  "ns_per_day = 86400000000000"

fun audit_loop ::
  "(string \<Rightarrow> string) \<Rightarrow> (int \<Rightarrow> string \<Rightarrow> error + day_count) \<Rightarrow> (nat \<Rightarrow> int) \<Rightarrow> nat \<Rightarrow>
     audit list \<Rightarrow> real \<Rightarrow> error + real" where
  "audit_loop lower age_days clock k [] best_audit_score = Inr best_audit_score"
| "audit_loop lower age_days clock k (a # rest) best_audit_score =
     (case map_of audit_firms (lower (dget (firm a) [])) of
        None \<Rightarrow> audit_loop lower age_days clock k rest best_audit_score
      | Some firm_reputation \<Rightarrow>
          (case date a of
             None \<Rightarrow> Inl (KeyError ''date'')
           | Some s \<Rightarrow>
               (case age_days (clock k) s of
                  Inl e \<Rightarrow> Inl e
                | Inr audit_age_days \<Rightarrow>
                    (let age_factor =
                           (case audit_age_days of
                              NaN \<Rightarrow> 0.5
                            | Days n \<Rightarrow> max 0.5 (1 - real_of_int n / 365));
                         sc = (1 - firm_reputation * age_factor) * 10
                     in audit_loop lower age_days clock (Suc k) rest
                          (min best_audit_score sc)))))"

text \<open>The running state of the assessor: the score, the factors and the mitigations.\<close>

type_synonym sc_state = "real \<times> (string \<times> fval) list \<times> message list"

definition check_audit_status ::
  "(string \<Rightarrow> string) \<Rightarrow> (int \<Rightarrow> string \<Rightarrow> error + day_count) \<Rightarrow> (nat \<Rightarrow> int) \<Rightarrow> opportunity \<Rightarrow>
     error + sc_state" where
  "check_audit_status lower age_days clock data =
     (if dget (audits data) [] \<noteq> [] then
        (case audit_loop lower age_days clock 0 (dget (audits data) []) 10 of
           Inl e \<Rightarrow> Inl e
         | Inr audit_score \<Rightarrow>
             Inr (audit_score, [(''audit_quality'', FNum (10 - audit_score))],
                  (if audit_score < 3 then [[Lit ''Multiple reputable audits completed'']] else [])))
      else
        Inr (10, [(''audit_quality'', FNum 0)],
             [[Sym WarningSign, Lit '' Get protocol audited by reputable firm'']]))"

definition check_bug_bounty :: "opportunity \<Rightarrow> sc_state \<Rightarrow> sc_state" where
  "check_bug_bounty data st =
     (case st of (audit_score, fs, ms) \<Rightarrow>
        (let bug_bounty = dget (bug_bounty_size data) 0 in
         if bug_bounty > 1000000 then
           (audit_score * 0.8, fs @ [(''bug_bounty'', FNum 8)],
            ms @ [[Lit ''$'', Val bug_bounty, Lit '' bug bounty program active'']])
         else if bug_bounty > 100000 then
           (audit_score * 0.9, fs @ [(''bug_bounty'', FNum 5)], ms)
         else
           (audit_score, fs @ [(''bug_bounty'', FNum 2)],
            ms @ [[Sym WarningSign, Lit '' Consider larger bug bounty program'']])))"

definition check_contract_age :: "opportunity \<Rightarrow> sc_state \<Rightarrow> sc_state" where
  "check_contract_age data st =
     (case st of (audit_score, fs, ms) \<Rightarrow>
        (let age = dget (contract_age_days data) 0 in
         if age > 365 then
           (audit_score * 0.7, fs @ [(''battle_tested'', FNum 8)],
            ms @ [[Lit ''Contract battle-tested for >1 year'']])
         else if age > 90 then
           (audit_score * 0.85, fs @ [(''battle_tested'', FNum 5)], ms)
         else
           (audit_score, fs @ [(''battle_tested'', FNum 2)],
            ms @ [[Sym WarningSign, Lit '' New contract - wait for battle-testing'']])))"

definition check_known_vulnerabilities :: "opportunity \<Rightarrow> sc_state \<Rightarrow> sc_state" where
  "check_known_vulnerabilities data st =
     (case st of (audit_score, fs, ms) \<Rightarrow>
        if dget (known_vulnerabilities data) 0 > 0 then
          (min 10 (audit_score + 3), fs, ms @ [[Sym Siren, Lit '' Known vulnerabilities detected'']])
        else (audit_score, fs, ms))"

definition check_upgrade_mechanism :: "opportunity \<Rightarrow> sc_state \<Rightarrow> sc_state" where
  "check_upgrade_mechanism data st =
     (case st of (audit_score, fs, ms) \<Rightarrow>
        if dget (upgradeable data) False then
          (if dget (timelock_days data) 0 > 2 then
             (audit_score, fs @ [(''upgrade_risk'', FNum 5)],
              ms @ [[Val (dget (timelock_days data) 0), Lit '' day timelock on upgrades'']])
           else
             (min 10 (audit_score + 2), fs @ [(''upgrade_risk'', FNum 8)],
              ms @ [[Sym WarningSign, Lit '' Upgradeable with short/no timelock'']]))
        else
          (audit_score, fs @ [(''upgrade_risk'', FNum 2)], ms @ [[Lit ''Non-upgradeable contract'']]))"

definition smart_contract_metric :: "sc_state \<Rightarrow> RiskMetrics" where
  "smart_contract_metric st =
     (case st of (audit_score, fs, ms) \<Rightarrow>
        \<lparr>category = SMART_CONTRACT, score = min 10 audit_score, confidence = 0.85,
         factors = fs, mitigation = ms\<rparr>)"

definition after_audit_status :: "opportunity \<Rightarrow> sc_state \<Rightarrow> RiskMetrics" where
  "after_audit_status data st =
     smart_contract_metric
       (check_upgrade_mechanism data
          (check_known_vulnerabilities data
             (check_contract_age data (check_bug_bounty data st))))"

definition assess_smart_contract_risk ::
  "(string \<Rightarrow> string) \<Rightarrow> (int \<Rightarrow> string \<Rightarrow> error + day_count) \<Rightarrow> (nat \<Rightarrow> int) \<Rightarrow> opportunity \<Rightarrow>
     error + RiskMetrics" where
  "assess_smart_contract_risk lower age_days clock data =
     (case check_audit_status lower age_days clock data of
        Inl e \<Rightarrow> Inl e
      | Inr st \<Rightarrow> Inr (after_audit_status data st))"

subsection \<open>Impermanent-loss assessor\<close>

type_synonym il_state = "real \<times> message list"

definition il_base_score :: "opportunity \<Rightarrow> real" where
  "il_base_score data =
     (let vol1 = dget (token1_volatility data) 0.5;
          vol2 = dget (token2_volatility data) 0.5;
          correlation = dget (token_correlation data) 0;
          avg_vol = (vol1 + vol2) / 2;
          vol_diff = \<bar>vol1 - vol2\<bar>;
          vol_risk = min 10 (avg_vol * 20);
          correlation_risk = (1 - \<bar>correlation\<bar>) * 5;
          divergence_risk = min 5 (vol_diff * 10)
      in vol_risk * 0.5 + correlation_risk * 0.3 + divergence_risk * 0.2)"

definition il_factors :: "opportunity \<Rightarrow> (string \<times> fval) list" where
  "il_factors data =
     (let vol1 = dget (token1_volatility data) 0.5;
          vol2 = dget (token2_volatility data) 0.5
      in [(''volatility'', FNum ((vol1 + vol2) / 2)),
          (''correlation'', FNum (dget (token_correlation data) 0)),
          (''divergence'', FNum \<bar>vol1 - vol2\<bar>)])"

definition check_il_protection :: "opportunity \<Rightarrow> il_state \<Rightarrow> il_state" where
  "check_il_protection data st =
     (case st of (il_score, ms) \<Rightarrow>
        if dget (il_protection data) False
        then (il_score * 0.3, ms @ [[Lit ''IL protection available'']])
        else (il_score, ms))"

definition check_stable_pair :: "opportunity \<Rightarrow> il_state \<Rightarrow> il_state" where
  "check_stable_pair data st =
     (case st of (il_score, ms) \<Rightarrow>
        if dget (is_stable_pair data) False
        then (min 2 il_score, ms @ [[Lit ''Stable pair - minimal IL risk'']])
        else (il_score, ms))"

definition check_concentrated_liquidity :: "opportunity \<Rightarrow> il_state \<Rightarrow> il_state" where
  "check_concentrated_liquidity data st =
     (case st of (il_score, ms) \<Rightarrow>
        if dget (concentrated_liquidity data) False
        then (min 10 (il_score * 1.5),
              ms @ [[Sym WarningSign, Lit '' Concentrated liquidity - higher IL risk'']])
        else (il_score, ms))"

definition add_mitigation_strategies :: "il_state \<Rightarrow> il_state" where
  "add_mitigation_strategies st =
     (case st of (il_score, ms) \<Rightarrow>
        if il_score > 7 then
          (il_score, ms @ [[Sym WarningSign, Lit '' Consider single-sided staking instead''],
                           [Sym WarningSign, Lit '' Use IL hedging strategies'']])
        else if il_score > 4 then
          (il_score, ms @ [[Lit ''Monitor price ratios regularly''],
                           [Lit ''Consider rebalancing if divergence occurs'']])
        else (il_score, ms))"

definition assess_impermanent_loss_risk :: "opportunity \<Rightarrow> RiskMetrics" where
  "assess_impermanent_loss_risk data =
     (if \<not> dget (is_lp_position data) False then
        \<lparr>category = IMPERMANENT_LOSS, score = 0, confidence = 1.0,
         factors = [(''not_applicable'', FBool True)],
         mitigation = [[Lit ''Not an LP position'']]\<rparr>
      else
        (case add_mitigation_strategies
                (check_concentrated_liquidity data
                   (check_stable_pair data
                      (check_il_protection data (il_base_score data, [])))) of
           (il_score, ms) \<Rightarrow>
             \<lparr>category = IMPERMANENT_LOSS, score = il_score, confidence = 0.8,
              factors = il_factors data, mitigation = ms\<rparr>))"

subsection \<open>Liquidity assessor\<close>

text \<open>Each tier yields its risk value, the factors it records and the mitigations it appends.\<close>

type_synonym tier = "real \<times> (string \<times> fval) list \<times> message list"

definition liquidity_tvl_tier :: "real \<Rightarrow> tier" where
  "liquidity_tvl_tier v =
     (if v > 10000000 then (1, [(''tvl_depth'', FNum 9)], [[Lit ''Deep liquidity pool >$10M'']])
      else if v > 1000000 then (3, [(''tvl_depth'', FNum 6)], [])
      else if v > 100000 then (6, [(''tvl_depth'', FNum 3)], [])
      else (9, [(''tvl_depth'', FNum 1)],
            [[Sym WarningSign, Lit '' Low liquidity - difficult exits'']]))"

definition turnover_tier :: "real \<Rightarrow> real \<Rightarrow> tier" where
  "turnover_tier v vol =
     (if v > 0 then
        (let turnover = vol / v in
         if turnover > 1 then (2, [(''turnover'', FNum turnover)], [[Lit ''High trading activity'']])
         else if turnover > 0.1 then (4, [(''turnover'', FNum turnover)], [])
         else (7, [(''turnover'', FNum turnover)], [[Sym WarningSign, Lit '' Low trading volume'']]))
      else (10, [], []))"

definition lp_concentration_tier :: "real \<Rightarrow> tier" where
  "lp_concentration_tier unique_lps =
     (if unique_lps > 100 then
        (2, [(''lp_distribution'', FNum 8)], [[Lit ''Well-distributed liquidity providers'']])
      else if unique_lps > 20 then (5, [(''lp_distribution'', FNum 5)], [])
      else (8, [(''lp_distribution'', FNum 2)],
            [[Sym WarningSign, Lit '' Concentrated liquidity providers'']]))"

definition lock_period_tier :: "real \<Rightarrow> tier" where
  "lock_period_tier lock_days =
     (if lock_days > 30 then
        (min 10 (lock_days / 10), [(''lock_period'', FNum lock_days)],
         [[Sym WarningSign, Lit '' '', Val lock_days, Lit '' day lock period'']])
      else (0, [(''lock_period'', FNum 0)], []))"

definition assess_liquidity_risk :: "opportunity \<Rightarrow> RiskMetrics" where
  "assess_liquidity_risk data =
     (case liquidity_tvl_tier (dget (tvl data) 0) of (tvl_risk, f1, m1) \<Rightarrow>
      case turnover_tier (dget (tvl data) 0) (dget (volume_24h data) 0) of (volume_risk, f2, m2) \<Rightarrow>
      case lp_concentration_tier (dget (unique_liquidity_providers data) 0) of
        (concentration_risk, f3, m3) \<Rightarrow>
      case lock_period_tier (dget (lock_period_days data) 0) of (lock_risk, f4, m4) \<Rightarrow>
        \<lparr>category = LIQUIDITY,
         score = tvl_risk * 0.4 + volume_risk * 0.3 + concentration_risk * 0.2 + lock_risk * 0.1,
         confidence = 0.9, factors = f1 @ f2 @ f3 @ f4, mitigation = m1 @ m2 @ m3 @ m4\<rparr>)"

subsection \<open>Protocol assessor\<close>

definition protocol_tvl_tier :: "real \<Rightarrow> tier" where
  "protocol_tvl_tier v =
     (if v > 1000000000 then
        (1, [(''protocol_size'', FNum 9)], [[Lit ''Blue-chip protocol with >$1B TVL'']])
      else if v > 100000000 then (3, [(''protocol_size'', FNum 7)], [])
      else if v > 10000000 then (5, [(''protocol_size'', FNum 5)], [])
      else (8, [(''protocol_size'', FNum 2)],
            [[Sym WarningSign, Lit '' Small protocol - higher risk'']]))"

definition protocol_age_tier :: "real \<Rightarrow> tier" where
  "protocol_age_tier age =
     (if age > 365 then (2, [(''maturity'', FNum 8)], [[Lit ''Established protocol >1 year'']])
      else if age > 90 then (5, [(''maturity'', FNum 5)], [])
      else (8, [(''maturity'', FNum 2)], [[Sym WarningSign, Lit '' New protocol <3 months'']]))"

definition team_tier :: "bool \<Rightarrow> tier" where
  "team_tier doxxed =
     (if doxxed then (3, [(''team_trust'', FNum 7)], [[Lit ''Team is doxxed/known'']])
      else (7, [(''team_trust'', FNum 3)], [[Sym WarningSign, Lit '' Anonymous team'']]))"

definition exploit_tier :: "real \<Rightarrow> tier" where
  "exploit_tier n =
     (if n > 0 then
        (min 10 (5 + n * 2), [(''exploit_history'', FNum n)],
         [[Sym Siren, Lit '' '', Val n, Lit '' previous exploits'']])
      else (0, [(''exploit_history'', FNum 0)], []))"

definition assess_protocol_risk :: "opportunity \<Rightarrow> RiskMetrics" where
  "assess_protocol_risk data =
     (case protocol_tvl_tier (dget (protocol_tvl data) 0) of (tvl_risk, f1, m1) \<Rightarrow>
      case protocol_age_tier (dget (protocol_age_days data) 0) of (age_risk, f2, m2) \<Rightarrow>
      case team_tier (dget (team_doxxed data) False) of (team_risk, f3, m3) \<Rightarrow>
      case exploit_tier (dget (previous_exploits data) 0) of (exploit_risk, f4, m4) \<Rightarrow>
        \<lparr>category = PROTOCOL,
         score = tvl_risk * 0.3 + age_risk * 0.3 + team_risk * 0.2 + exploit_risk * 0.2,
         confidence = 0.85, factors = f1 @ f2 @ f3 @ f4, mitigation = m1 @ m2 @ m3 @ m4\<rparr>)"

subsection \<open>Market and regulatory assessors\<close>

definition token_type_tier :: "string list \<Rightarrow> tier" where
  "token_type_tier types =
     (if ''stablecoin'' \<in> set types then
        (2, [(''token_stability'', FNum 8)], [[Lit ''Stablecoin exposure reduces volatility'']])
      else if ''bluechip'' \<in> set types then (4, [(''token_stability'', FNum 6)], [])
      else if ''altcoin'' \<in> set types then (7, [(''token_stability'', FNum 3)], [])
      else (9, [(''token_stability'', FNum 1)],
            [[Sym WarningSign, Lit '' High volatility token exposure'']]))"

definition market_correlation_tier :: "real \<Rightarrow> tier" where
  "market_correlation_tier c =
     (if c > 0.8 then
        (7, [(''market_correlation'', FNum c)], [[Sym WarningSign, Lit '' High correlation with BTC'']])
      else if c > 0.5 then (5, [(''market_correlation'', FNum c)], [])
      else (3, [(''market_correlation'', FNum c)], [[Lit ''Low market correlation'']]))"

definition macro_tier :: "bool \<Rightarrow> tier" where
  "macro_tier sensitive =
     (if sensitive then
        (6, [(''macro_sensitive'', FBool True)],
         [[Sym WarningSign, Lit '' Sensitive to interest rate changes'']])
      else (3, [(''macro_sensitive'', FBool False)], []))"

definition assess_market_risk :: "opportunity \<Rightarrow> RiskMetrics" where
  "assess_market_risk data =
     (case token_type_tier (dget (token_types data) []) of (type_risk, f1, m1) \<Rightarrow>
      case market_correlation_tier \<bar>dget (btc_correlation data) 0.5\<bar> of
        (correlation_risk, f2, m2) \<Rightarrow>
      case macro_tier (dget (sensitive_to_rates data) False) of (macro_risk, f3, m3) \<Rightarrow>
        \<lparr>category = MARKET,
         score = type_risk * 0.5 + correlation_risk * 0.3 + macro_risk * 0.2,
         confidence = 0.75, factors = f1 @ f2 @ f3, mitigation = m1 @ m2 @ m3\<rparr>)"

definition geo_tier :: "string list \<Rightarrow> tier" where
  "geo_tier regions =
     (if ''US'' \<in> set regions then
        (7, [(''us_restricted'', FBool True)], [[Sym WarningSign, Lit '' US restrictions apply'']])
      else (3, [(''us_restricted'', FBool False)], []))"

definition kyc_tier :: "bool \<Rightarrow> tier" where
  "kyc_tier required =
     (if required then (2, [(''kyc'', FBool True)], [[Lit ''KYC compliance required'']])
      else (5, [(''kyc'', FBool False)], []))"

definition security_tier :: "bool \<Rightarrow> tier" where
  "security_tier potential =
     (if potential then
        (8, [(''security_risk'', FBool True)],
         [[Sym Siren, Lit '' Potential security classification risk'']])
      else (3, [(''security_risk'', FBool False)], []))"

definition assess_regulatory_risk :: "opportunity \<Rightarrow> RiskMetrics" where
  "assess_regulatory_risk data =
     (case geo_tier (dget (restricted_regions data) []) of (geo_risk, f1, m1) \<Rightarrow>
      case kyc_tier (dget (kyc_required data) False) of (kyc_risk, f2, m2) \<Rightarrow>
      case security_tier (dget (potential_security data) False) of (security_risk, f3, m3) \<Rightarrow>
        \<lparr>category = REGULATORY,
         score = geo_risk * 0.4 + kyc_risk * 0.2 + security_risk * 0.4,
         confidence = 0.7, factors = f1 @ f2 @ f3, mitigation = m1 @ m2 @ m3\<rparr>)"

subsection \<open>Oracle and bridge assessors\<close>

definition oracle_scores :: "(string \<times> real) list" where
  "oracle_scores =
     [(''chainlink'', 2), (''band'', 4), (''dia'', 5), (''api3'', 5), (''pyth'', 3), (''uma'', 4),
      (''twap'', 6), (''spot'', 8), (''unknown'', 9)]"

definition oracle_reputation :: "(string \<Rightarrow> string) \<Rightarrow> string \<Rightarrow> tier" where
  "oracle_reputation lower provider =
     (let oracle_risk = dget (map_of oracle_scores (lower provider)) 9 in
      (oracle_risk, [(''oracle_provider'', FStr provider)],
       (if oracle_risk \<le> 3 then [[Lit ''Reputable oracle: '', Txt provider]]
        else if oracle_risk \<ge> 7 then [[Sym WarningSign, Lit '' Weak price feed: '', Txt provider]]
        else [])))"

definition check_multi_oracle :: "opportunity \<Rightarrow> tier \<Rightarrow> tier" where
  "check_multi_oracle data st =
     (case st of (oracle_risk, fs, ms) \<Rightarrow>
        if dget (multi_oracle data) False then
          (oracle_risk * 0.6, fs @ [(''multi_oracle'', FBool True)],
           ms @ [[Lit ''Multiple oracle sources for redundancy'']])
        else (oracle_risk, fs @ [(''multi_oracle'', FBool False)], ms))"

definition check_twap :: "opportunity \<Rightarrow> tier \<Rightarrow> tier" where
  "check_twap data st =
     (case st of (oracle_risk, fs, ms) \<Rightarrow>
        if dget (twap_enabled data) False then
          (oracle_risk * 0.8, fs @ [(''twap_protection'', FBool True)],
           ms @ [[Lit ''TWAP protection against manipulation'']])
        else (oracle_risk, fs @ [(''twap_protection'', FBool False)], ms))"

definition assess_oracle_risk :: "(string \<Rightarrow> string) \<Rightarrow> opportunity \<Rightarrow> RiskMetrics" where
  "assess_oracle_risk lower data =
     (case check_twap data
             (check_multi_oracle data
                (oracle_reputation lower (dget (oracle_provider data) ''unknown''))) of
        (oracle_risk, fs, ms) \<Rightarrow>
          \<lparr>category = ORACLE, score = oracle_risk, confidence = 0.8,
           factors = fs, mitigation = ms\<rparr>)"

definition bridge_scores :: "(string \<times> real) list" where
  "bridge_scores =
     [(''native'', 2), (''layerzero'', 3), (''wormhole'', 4), (''axelar'', 4), (''celer'', 5),
      (''multichain'', 7), (''unknown'', 9)]"

definition bridge_reputation :: "(string \<Rightarrow> string) \<Rightarrow> string \<Rightarrow> tier" where
  "bridge_reputation lower provider =
     (dget (map_of bridge_scores (lower provider)) 9, [(''bridge_provider'', FStr provider)], [])"

definition check_bridge_tvl :: "opportunity \<Rightarrow> tier \<Rightarrow> tier" where
  "check_bridge_tvl data st =
     (case st of (bridge_risk, fs, ms) \<Rightarrow>
        (let v = dget (bridge_tvl data) 0 in
         if v > 1000000000 then
           (bridge_risk * 0.7, fs @ [(''bridge_security'', FNum 7)],
            ms @ [[Lit ''High-security bridge with >$1B locked'']])
         else if v < 10000000 then
           (min 10 (bridge_risk * 1.5), fs @ [(''bridge_security'', FNum 3)],
            ms @ [[Sym WarningSign, Lit '' Low-security bridge'']])
         else (bridge_risk, fs, ms)))"

definition check_bridge_hacks :: "opportunity \<Rightarrow> tier \<Rightarrow> tier" where
  "check_bridge_hacks data st =
     (case st of (bridge_risk, fs, ms) \<Rightarrow>
        if dget (bridge_hacked_before data) False then
          (min 10 (bridge_risk + 3), fs, ms @ [[Sym Siren, Lit '' Bridge has been hacked before'']])
        else (bridge_risk, fs, ms))"

definition assess_bridge_risk :: "(string \<Rightarrow> string) \<Rightarrow> opportunity \<Rightarrow> RiskMetrics" where
  "assess_bridge_risk lower data =
     (if \<not> dget (uses_bridge data) False then
        \<lparr>category = BRIDGE, score = 0, confidence = 1.0,
         factors = [(''not_applicable'', FBool True)],
         mitigation = [[Lit ''No bridge required'']]\<rparr>
      else
        (case check_bridge_hacks data
                (check_bridge_tvl data
                   (bridge_reputation lower (dget (bridge_provider data) ''unknown''))) of
           (bridge_risk, fs, ms) \<Rightarrow>
             \<lparr>category = BRIDGE, score = bridge_risk, confidence = 0.75,
              factors = fs, mitigation = ms\<rparr>))"

subsection \<open>Aggregation and classification\<close>

text \<open>The loop of \<^verbatim>\<open>calculate_overall_risk\<close>, with its two accumulators.\<close>

fun overall_loop :: "RiskMetrics list \<Rightarrow> real \<Rightarrow> real \<Rightarrow> real \<times> real" where
  "overall_loop [] total_score total_weight = (total_score, total_weight)"
| "overall_loop (metric # rest) total_score total_weight =
     (let weight = dget (map_of risk_weights (category metric)) 0.1
      in overall_loop rest (total_score + score metric * weight * confidence metric)
                           (total_weight + weight * confidence metric))"

definition calculate_overall_risk :: "RiskMetrics list \<Rightarrow> real" where
  "calculate_overall_risk risk_metrics =
     (case overall_loop risk_metrics 0 0 of
        (total_score, total_weight) \<Rightarrow>
          if total_weight > 0 then total_score / total_weight else 5)"

definition determine_risk_tier :: "real \<Rightarrow> string" where
  "determine_risk_tier overall =
     (if overall < 2 then ''MINIMAL''
      else if overall < 4 then ''LOW''
      else if overall < 6 then ''MEDIUM''
      else if overall < 8 then ''HIGH''
      else ''EXTREME'')"

definition determine_suitability :: "real \<Rightarrow> string list" where
  "determine_suitability overall =
     (if overall < 4 then [''Conservative'', ''Moderate'', ''Aggressive'', ''Degen'']
      else if overall < 6 then [''Moderate'', ''Aggressive'', ''Degen'']
      else if overall < 8 then [''Aggressive'', ''Degen'']
      else [''Degen''])"

definition calculate_max_allocation :: "real \<Rightarrow> real" where
  "calculate_max_allocation overall =
     (if overall < 2 then 40
      else if overall < 4 then 25
      else if overall < 6 then 15
      else if overall < 8 then 8
      else 3)"

subsection \<open>Recommendations\<close>

text \<open>
  \<^verbatim>\<open>sorted(..., key=score, reverse=True)\<close> is stable: metrics of equal score keep their
  order, as the stable \<^const>\<open>sort_key\<close> on the negated score does.
\<close>

definition generate_recommendations :: "RiskMetrics list \<Rightarrow> opportunity \<Rightarrow> message list" where
  "generate_recommendations risk_metrics data =
     (let sorted_metrics = sort_key (\<lambda>m. - score m) risk_metrics;
          top = concat (map (\<lambda>m. if score m > 6 then take 2 (mitigation m) else [])
                            (take 3 sorted_metrics));
          overall = calculate_overall_risk risk_metrics;
          max_allocation = calculate_max_allocation overall;
          sizing = [[Sym MoneyBag, Lit '' Maximum allocation: '', Val max_allocation,
                     Lit ''% of portfolio'']];
          timing = (if overall > 7 then
                      [[Sym AlarmClock, Lit '' Consider waiting for risk factors to improve'']]
                    else if dget (apy data) 0 > 100 then
                      [[Sym AlarmClock, Lit '' Enter gradually to avoid FOMO'']]
                    else []);
          hedging = (if list_ex (\<lambda>m. category m = IMPERMANENT_LOSS \<and> score m > 6) risk_metrics
                     then [[Sym ShieldSign, Lit '' Consider IL hedging strategies or insurance'']]
                     else [])
      in top @ sizing @ timing @ hedging)"

subsection \<open>The entry point\<close>

definition category_value :: "RiskCategory \<Rightarrow> string" where
  "category_value c =
     (case c of
        SMART_CONTRACT \<Rightarrow> ''smart_contract'' | IMPERMANENT_LOSS \<Rightarrow> ''impermanent_loss''
      | LIQUIDITY \<Rightarrow> ''liquidity'' | PROTOCOL \<Rightarrow> ''protocol'' | MARKET \<Rightarrow> ''market''
      | REGULATORY \<Rightarrow> ''regulatory'' | ORACLE \<Rightarrow> ''oracle'' | BRIDGE \<Rightarrow> ''bridge'')"

record assessment =
  overall_score :: real
  risk_tier :: string
  risk_metrics :: "(string \<times> RiskMetrics) list"
  recommendations :: "message list"
  suitable_for :: "string list"
  max_allocation_percentage :: real

text \<open>The seven assessors that cannot raise, in the order in which they are called.\<close>

definition other_metrics :: "(string \<Rightarrow> string) \<Rightarrow> opportunity \<Rightarrow> RiskMetrics list" where
  "other_metrics lower data =
     [assess_impermanent_loss_risk data, assess_liquidity_risk data, assess_protocol_risk data,
      assess_market_risk data, assess_regulatory_risk data, assess_oracle_risk lower data,
      assess_bridge_risk lower data]"

definition assess_opportunity ::
  "(string \<Rightarrow> string) \<Rightarrow> (int \<Rightarrow> string \<Rightarrow> error + day_count) \<Rightarrow> (nat \<Rightarrow> int) \<Rightarrow> opportunity \<Rightarrow>
     error + assessment" where
  "assess_opportunity lower age_days clock opportunity_data =
     (case assess_smart_contract_risk lower age_days clock opportunity_data of
        Inl e \<Rightarrow> Inl e
      | Inr sc \<Rightarrow>
          (let metrics = sc # other_metrics lower opportunity_data;
               overall = calculate_overall_risk metrics
           in Inr \<lparr>overall_score = overall,
                   risk_tier = determine_risk_tier overall,
                   risk_metrics = map (\<lambda>rm. (category_value (category rm), rm)) metrics,
                   recommendations = generate_recommendations metrics opportunity_data,
                   suitable_for = determine_suitability overall,
                   max_allocation_percentage = calculate_max_allocation overall\<rparr>))"

text \<open>The record in which every key is absent.\<close>

definition empty_opportunity :: opportunity where
  "empty_opportunity =
     \<lparr>audits = None, bug_bounty_size = None, contract_age_days = None,
      known_vulnerabilities = None, upgradeable = None, timelock_days = None,
      is_lp_position = None, token1_volatility = None, token2_volatility = None,
      token_correlation = None, il_protection = None, is_stable_pair = None,
      concentrated_liquidity = None, tvl = None, volume_24h = None,
      unique_liquidity_providers = None, lock_period_days = None, protocol_tvl = None,
      protocol_age_days = None, team_doxxed = None, previous_exploits = None,
      token_types = None, btc_correlation = None, sensitive_to_rates = None,
      restricted_regions = None, kyc_required = None, potential_security = None,
      oracle_provider = None, multi_oracle = None, twap_enabled = None, uses_bridge = None,
      bridge_provider = None, bridge_tvl = None, bridge_hacked_before = None, apy = None\<rparr>"

subsection \<open>The aggregation formula as the specification words it\<close>

text \<open>
  The table of category weights and the two sums of the quotient
  \<open>\<Sum>(score * weight * confidence) / \<Sum>(weight * confidence)\<close>, written from the specification, to be
  compared with the table \<^const>\<open>risk_weights\<close> and the loop \<^const>\<open>overall_loop\<close> of the code.
\<close>

definition spec_weight :: "RiskCategory \<Rightarrow> real" where
  "spec_weight c =
     (case c of
        SMART_CONTRACT \<Rightarrow> 0.25 | IMPERMANENT_LOSS \<Rightarrow> 0.20 | LIQUIDITY \<Rightarrow> 0.15
      | PROTOCOL \<Rightarrow> 0.15 | MARKET \<Rightarrow> 0.10 | REGULATORY \<Rightarrow> 0.05 | ORACLE \<Rightarrow> 0.05
      | BRIDGE \<Rightarrow> 0.05)"

definition spec_numerator :: "RiskMetrics list \<Rightarrow> real" where
  "spec_numerator ms = (\<Sum>m\<leftarrow>ms. score m * spec_weight (category m) * confidence m)"

definition spec_denominator :: "RiskMetrics list \<Rightarrow> real" where
  "spec_denominator ms = (\<Sum>m\<leftarrow>ms. spec_weight (category m) * confidence m)"

definition all_categories :: "RiskCategory list" where
  "all_categories =
     [SMART_CONTRACT, IMPERMANENT_LOSS, LIQUIDITY, PROTOCOL, MARKET, REGULATORY, ORACLE, BRIDGE]"

text \<open>
  The smart-contract score that an audit component of 0 would give: the stages after the audit
  check, started from 0.
\<close>

definition score_without_audit_component :: "opportunity \<Rightarrow> real" where
  "score_without_audit_component data = score (after_audit_status data (0, [], []))"

subsection \<open>Concrete environments and inputs\<close>

text \<open>
  A stand-in for pandas that knows one date, 1 January 2026 (20454 days after the epoch): written
  without a timezone its age is the floor of the difference in days; written with a timezone
  the subtraction from the naive clock reading raises a type error; every other string is taken
  not to parse. The clocks give the same reading, a number of days after the epoch, each time
  they are read.
\<close>

definition age_days_2026 :: "int \<Rightarrow> string \<Rightarrow> error + day_count" where
  "age_days_2026 now s =
     (if s = ''2026-01-01'' then Inr (Days ((now - 20454 * ns_per_day) div ns_per_day))
      else if s = ''2026-01-01T00:00:00Z'' then Inl (TypeError s)
      else Inl (ValueError s))"

definition clock_at_day :: "int \<Rightarrow> nat \<Rightarrow> int" where
  "clock_at_day n k = n * ns_per_day"

definition high_risk_scenario :: opportunity where
  "high_risk_scenario =
     empty_opportunity\<lparr>tvl := Some 5000000, audits := Some [], bug_bounty_size := Some 0,
       contract_age_days := Some 30, protocol_tvl := Some 5000000, protocol_age_days := Some 30,
       team_doxxed := Some False, is_lp_position := Some False, uses_bridge := Some False,
       oracle_provider := Some ''unknown'', token_types := Some [''memecoin'']\<rparr>"

definition certik_audit_2026 :: opportunity where
  "certik_audit_2026 =
     empty_opportunity\<lparr>audits := Some [\<lparr>firm = Some ''certik'', date = Some ''2026-01-01''\<rparr>]\<rparr>"

definition undated_audit :: opportunity where
  "undated_audit = empty_opportunity\<lparr>audits := Some [\<lparr>firm = Some ''certik'', date = None\<rparr>]\<rparr>"

definition aware_audit :: opportunity where
  "aware_audit =
     empty_opportunity\<lparr>audits :=
       Some [\<lparr>firm = Some ''certik'', date = Some ''2026-01-01T00:00:00Z''\<rparr>]\<rparr>"

definition unparsed_audit :: opportunity where
  "unparsed_audit =
     empty_opportunity\<lparr>audits := Some [\<lparr>firm = Some ''certik'', date = Some ''soon''\<rparr>]\<rparr>"

definition anonymous_audit :: opportunity where
  "anonymous_audit = empty_opportunity\<lparr>audits := Some [\<lparr>firm = None, date = None\<rparr>]\<rparr>"

definition stable_concentrated_pair :: opportunity where
  "stable_concentrated_pair =
     empty_opportunity\<lparr>is_lp_position := Some True, is_stable_pair := Some True,
       concentrated_liquidity := Some True\<rparr>"

definition stable_pair :: opportunity where
  "stable_pair = empty_opportunity\<lparr>is_lp_position := Some True, is_stable_pair := Some True\<rparr>"

subsection \<open>Audit entries that the loop reads\<close>

text \<open>
  An audit is recognised when its firm, in lower case, is a key of \<^const>\<open>audit_firms\<close> (the test
  \<^verbatim>\<open>firm in self.audit_firms\<close>). The loop reads the clock for the recognised audits only:
  \<open>audit_readings\<close> pairs each of them with the index of its reading. An audit is readable at
  a reading when its date is present and the pandas expression returns for it.
\<close>

definition recognised :: "(string \<Rightarrow> string) \<Rightarrow> audit \<Rightarrow> bool" where
  "recognised lower a = (map_of audit_firms (lower (dget (firm a) [])) \<noteq> None)"

fun audit_readings :: "(string \<Rightarrow> string) \<Rightarrow> nat \<Rightarrow> audit list \<Rightarrow> (nat \<times> audit) list" where
  "audit_readings lower k [] = []"
| "audit_readings lower k (a # rest) =
     (if recognised lower a then (k, a) # audit_readings lower (Suc k) rest
      else audit_readings lower k rest)"

definition readable ::
  "(int \<Rightarrow> string \<Rightarrow> error + day_count) \<Rightarrow> (nat \<Rightarrow> int) \<Rightarrow> nat \<times> audit \<Rightarrow> bool" where
  "readable age_days clock ka =
     (case date (snd ka) of
        None \<Rightarrow> False
      | Some s \<Rightarrow> \<not> isl (age_days (clock (fst ka)) s))"

section \<open>Properties\<close>

subsection \<open>The aggregator computes the quotient of the two sums\<close>

lemma weight_lookup: "dget (map_of risk_weights c) 0.1 = spec_weight c"
  by (cases c) (simp_all add: risk_weights_def dget_def spec_weight_def)

lemma overall_loop_sums:
  "overall_loop ms a b = (a + spec_numerator ms, b + spec_denominator ms)"
  by (induction ms arbitrary: a b)
     (simp_all add: spec_numerator_def spec_denominator_def weight_lookup Let_def add.assoc)

lemma calculate_overall_risk_quotient:
  "calculate_overall_risk ms =
     (if 0 < spec_denominator ms then spec_numerator ms / spec_denominator ms else 5)"
  by (simp add: calculate_overall_risk_def overall_loop_sums)

lemma smart_contract_metric_sel:
  "category (smart_contract_metric st) = SMART_CONTRACT"
  "confidence (smart_contract_metric st) = 0.85"
  "score (smart_contract_metric st) = min 10 (fst st)"
  by (cases st; simp add: smart_contract_metric_def)+

lemma smart_contract_category:
  assumes "assess_smart_contract_risk lower ad c d = Inr m"
  shows "category m = SMART_CONTRACT \<and> confidence m = 0.85"
proof (cases "check_audit_status lower ad c d")
  case (Inl e)
  then show ?thesis using assms by (simp add: assess_smart_contract_risk_def)
next
  case (Inr st)
  then have "m = after_audit_status d st"
    using assms by (simp add: assess_smart_contract_risk_def)
  then show ?thesis by (simp add: after_audit_status_def smart_contract_metric_sel)
qed

lemma other_metrics_category:
  "map category (other_metrics lower d) =
     [IMPERMANENT_LOSS, LIQUIDITY, PROTOCOL, MARKET, REGULATORY, ORACLE, BRIDGE]"
  by (simp add: other_metrics_def assess_impermanent_loss_risk_def assess_liquidity_risk_def
        assess_protocol_risk_def assess_market_risk_def assess_regulatory_risk_def
        assess_oracle_risk_def assess_bridge_risk_def split: prod.split)

lemma other_metrics_confidence:
  "map confidence (other_metrics lower d) =
     [if dget (is_lp_position d) False then 0.8 else 1, 0.9, 0.85, 0.75, 0.7, 0.8,
      if dget (uses_bridge d) False then 0.75 else 1]"
  by (simp add: other_metrics_def assess_impermanent_loss_risk_def assess_liquidity_risk_def
        assess_protocol_risk_def assess_market_risk_def assess_regulatory_risk_def
        assess_oracle_risk_def assess_bridge_risk_def split: prod.split)

lemma assessment_fields:
  assumes "assess_smart_contract_risk lower ad c d = Inr sc"
  shows "overall_score (projr (assess_opportunity lower ad c d)) = calculate_overall_risk (sc # other_metrics lower d)"
    and "map snd (risk_metrics (projr (assess_opportunity lower ad c d))) = sc # other_metrics lower d"
    and "risk_tier (projr (assess_opportunity lower ad c d)) =
           determine_risk_tier (calculate_overall_risk (sc # other_metrics lower d))"
    and "suitable_for (projr (assess_opportunity lower ad c d)) =
           determine_suitability (calculate_overall_risk (sc # other_metrics lower d))"
    and "max_allocation_percentage (projr (assess_opportunity lower ad c d)) =
           calculate_max_allocation (calculate_overall_risk (sc # other_metrics lower d))"
    and "\<not> isl (assess_opportunity lower ad c d)"
  unfolding assess_opportunity_def assms by (simp_all add: Let_def comp_def)

lemma assess_opportunity_error:
  "assess_smart_contract_risk lower ad c d = Inl e \<Longrightarrow> assess_opportunity lower ad c d = Inl e"
  by (simp add: assess_opportunity_def)

lemma metrics_of_assessment:
  assumes "assess_opportunity lower ad c d = Inr r"
  obtains sc where "assess_smart_contract_risk lower ad c d = Inr sc"
    and "map snd (risk_metrics r) = sc # other_metrics lower d"
    and "overall_score r = calculate_overall_risk (sc # other_metrics lower d)"
proof (cases "assess_smart_contract_risk lower ad c d")
  case (Inl e)
  then show ?thesis using assms by (simp add: assess_opportunity_error)
next
  case (Inr sc)
  have r: "r = projr (assess_opportunity lower ad c d)" using assms by simp
  show ?thesis
    using that [OF Inr] assessment_fields(1,2) [OF Inr] unfolding r by blast
qed

lemma spec_sums_zip:
  "spec_denominator ms =
     sum_list (map2 (\<lambda>c k. spec_weight c * k) (map category ms) (map confidence ms))"
  by (induction ms) (simp_all add: spec_denominator_def)

lemma other_metrics_denominator:
  "spec_denominator (other_metrics lower d) =
     0.2 * (if dget (is_lp_position d) False then 0.8 else 1) + 0.4125 +
     0.05 * (if dget (uses_bridge d) False then 0.75 else 1)"
  unfolding spec_sums_zip other_metrics_category other_metrics_confidence
  by (simp add: spec_weight_def)

lemma denominator_lower_bound:
  assumes "assess_smart_contract_risk lower ad c d = Inr sc"
  shows "0.7 \<le> spec_denominator (sc # other_metrics lower d)"
proof -
  have "spec_denominator (sc # other_metrics lower d) = 0.25 * 0.85 + spec_denominator (other_metrics lower d)"
    using smart_contract_category [OF assms] by (simp add: spec_denominator_def spec_weight_def)
  then show ?thesis unfolding other_metrics_denominator by simp
qed

subsection \<open>The end-to-end scenario\<close>

lemma lower_unknown: "lower_ascii ''unknown'' = ''unknown''"
  by code_simp

lemma lower_certik: "lower_ascii ''certik'' = ''certik''"
  by code_simp

lemmas smart_contract_defs =
  assess_smart_contract_risk_def check_audit_status_def after_audit_status_def
  check_bug_bounty_def check_contract_age_def check_known_vulnerabilities_def
  check_upgrade_mechanism_def smart_contract_metric_def

lemmas other_metrics_defs =
  other_metrics_def assess_impermanent_loss_risk_def assess_liquidity_risk_def
  liquidity_tvl_tier_def turnover_tier_def lp_concentration_tier_def lock_period_tier_def
  assess_protocol_risk_def protocol_tvl_tier_def protocol_age_tier_def team_tier_def
  exploit_tier_def assess_market_risk_def token_type_tier_def market_correlation_tier_def
  macro_tier_def assess_regulatory_risk_def geo_tier_def kyc_tier_def security_tier_def
  assess_oracle_risk_def oracle_reputation_def check_multi_oracle_def check_twap_def
  assess_bridge_risk_def

lemma scenario_smart_contract:
  "\<exists>sc. assess_smart_contract_risk lower_ascii ad c high_risk_scenario = Inr sc \<and> score sc = 10"
  by (simp add: smart_contract_defs high_risk_scenario_def empty_opportunity_def dget_def)

lemma scenario_other_scores:
  "map score (other_metrics lower_ascii high_risk_scenario) = [0, 4.9, 6.2, 6, 3.4, 9, 0]"
  by (simp add: other_metrics_defs high_risk_scenario_def empty_opportunity_def dget_def
        lower_unknown oracle_scores_def)

lemma spec_numerator_zip:
  "spec_numerator ms =
     sum_list (map2 (\<lambda>s p. s * p) (map score ms)
                 (map2 (\<lambda>c k. spec_weight c * k) (map category ms) (map confidence ms)))"
  by (induction ms) (simp_all add: spec_numerator_def)

lemma spec_denominator_Cons:
  "spec_denominator (m # ms) = spec_weight (category m) * confidence m + spec_denominator ms"
  by (simp add: spec_denominator_def)

lemma scenario_overall:
  "overall_score (projr (assess_opportunity lower_ascii ad c high_risk_scenario)) = 4506 / 875"
proof -
  obtain sc where sc: "assess_smart_contract_risk lower_ascii ad c high_risk_scenario = Inr sc" "score sc = 10"
    using scenario_smart_contract by blast
  have flags: "\<not> dget (is_lp_position high_risk_scenario) False"
      "\<not> dget (uses_bridge high_risk_scenario) False"
    by (simp_all add: high_risk_scenario_def dget_def)
  have cat: "category sc = SMART_CONTRACT" and conf: "confidence sc = 0.85"
    using smart_contract_category [OF sc(1)] by simp_all
  have den: "spec_denominator (sc # other_metrics lower_ascii high_risk_scenario) = 0.875"
    by (simp add: spec_denominator_Cons cat conf other_metrics_denominator flags spec_weight_def)
  have num: "spec_numerator (sc # other_metrics lower_ascii high_risk_scenario) = 4.506"
    unfolding spec_numerator_zip
    by (simp add: cat conf sc(2) other_metrics_category other_metrics_confidence
          scenario_other_scores flags spec_weight_def)
  show ?thesis
    unfolding assessment_fields(1) [OF sc(1)] calculate_overall_risk_quotient den num by simp
qed

lemma scenario_returns: "\<not> isl (assess_opportunity lower_ascii ad c high_risk_scenario)"
  using scenario_smart_contract [of ad c] assessment_fields(6) by blast

lemma scenario_classification:
  "risk_tier (projr (assess_opportunity lower_ascii ad c high_risk_scenario)) = ''MEDIUM''"
  "max_allocation_percentage (projr (assess_opportunity lower_ascii ad c high_risk_scenario)) = 15"
  "suitable_for (projr (assess_opportunity lower_ascii ad c high_risk_scenario)) =
     [''Moderate'', ''Aggressive'', ''Degen'']"
proof -
  obtain sc where sc: "assess_smart_contract_risk lower_ascii ad c high_risk_scenario = Inr sc"
    using scenario_smart_contract by blast
  have o: "calculate_overall_risk (sc # other_metrics lower_ascii high_risk_scenario) = 4506 / 875"
    using scenario_overall [of ad c] unfolding assessment_fields(1) [OF sc] .
  show "risk_tier (projr (assess_opportunity lower_ascii ad c high_risk_scenario)) = ''MEDIUM''"
    unfolding assessment_fields(3) [OF sc] o by (simp add: determine_risk_tier_def)
  show "max_allocation_percentage (projr (assess_opportunity lower_ascii ad c high_risk_scenario)) = 15"
    unfolding assessment_fields(5) [OF sc] o by (simp add: calculate_max_allocation_def)
  show "suitable_for (projr (assess_opportunity lower_ascii ad c high_risk_scenario)) =
     [''Moderate'', ''Aggressive'', ''Degen'']"
    unfolding assessment_fields(4) [OF sc] o by (simp add: determine_suitability_def)
qed

text \<open>
  C2 (as amended). On the record of the end-to-end scenario the assessment returns, whatever
  pandas and the clock do: the overall score is 4506/875 (about 5.15), the tier is MEDIUM and the
  maximum allocation is 15.
\<close>

theorem high_risk_scenario_is_medium:
  "\<not> isl (assess_opportunity lower_ascii ad c high_risk_scenario) \<and>
   overall_score (projr (assess_opportunity lower_ascii ad c high_risk_scenario)) = 4506 / 875 \<and>
   risk_tier (projr (assess_opportunity lower_ascii ad c high_risk_scenario)) = ''MEDIUM'' \<and>
   max_allocation_percentage (projr (assess_opportunity lower_ascii ad c high_risk_scenario)) = 15"
  by (simp add: scenario_returns scenario_overall scenario_classification)

text \<open>
  C2 as stated fails: on that record the tier is neither HIGH nor EXTREME, and the maximum
  allocation is not at most 8.
\<close>

theorem high_risk_scenario_counterexample:
  "\<not> isl (assess_opportunity lower_ascii age_days_2026 (clock_at_day 20454) high_risk_scenario) \<and>
   risk_tier (projr (assess_opportunity lower_ascii age_days_2026 (clock_at_day 20454) high_risk_scenario))
     \<notin> {''HIGH'', ''EXTREME''} \<and>
   \<not> max_allocation_percentage
        (projr (assess_opportunity lower_ascii age_days_2026 (clock_at_day 20454) high_risk_scenario)) \<le> 8"
  by (simp add: scenario_returns scenario_classification)

subsection \<open>Classification boundaries\<close>

text \<open>
  C3 (as amended). The classification intervals are closed on the lower bound: a score that
  equals a boundary is classified with the scores above it, the higher-risk side. So 2 is LOW
  with ceiling 25, 4 is MEDIUM with ceiling 15 and three profiles, 6 is HIGH with ceiling 8 and
  two profiles, 8 is EXTREME with ceiling 3 and one profile; suitability has no boundary at 2.
\<close>

theorem boundaries_belong_to_higher_risk_side:
  "(determine_risk_tier s = ''MINIMAL'') = (s < 2) \<and>
   (determine_risk_tier s = ''LOW'') = (2 \<le> s \<and> s < 4) \<and>
   (determine_risk_tier s = ''MEDIUM'') = (4 \<le> s \<and> s < 6) \<and>
   (determine_risk_tier s = ''HIGH'') = (6 \<le> s \<and> s < 8) \<and>
   (determine_risk_tier s = ''EXTREME'') = (8 \<le> s) \<and>
   (calculate_max_allocation s = 40) = (s < 2) \<and>
   (calculate_max_allocation s = 25) = (2 \<le> s \<and> s < 4) \<and>
   (calculate_max_allocation s = 15) = (4 \<le> s \<and> s < 6) \<and>
   (calculate_max_allocation s = 8) = (6 \<le> s \<and> s < 8) \<and>
   (calculate_max_allocation s = 3) = (8 \<le> s) \<and>
   (determine_suitability s = [''Conservative'', ''Moderate'', ''Aggressive'', ''Degen'']) = (s < 4) \<and>
   (determine_suitability s = [''Moderate'', ''Aggressive'', ''Degen'']) = (4 \<le> s \<and> s < 6) \<and>
   (determine_suitability s = [''Aggressive'', ''Degen'']) = (6 \<le> s \<and> s < 8) \<and>
   (determine_suitability s = [''Degen'']) = (8 \<le> s)"
  by (simp add: determine_risk_tier_def calculate_max_allocation_def determine_suitability_def)

text \<open>
  C3 as stated fails: a score of exactly 4 is classified MEDIUM, not LOW, with the smaller
  suitability set and the smaller allocation ceiling.
\<close>

theorem boundary_four_counterexample:
  "determine_risk_tier 4 \<noteq> ''LOW'' \<and> determine_risk_tier 4 = ''MEDIUM'' \<and>
   calculate_max_allocation 4 = 15 \<and>
   determine_suitability 4 = [''Moderate'', ''Aggressive'', ''Degen'']"
  by (simp add: determine_risk_tier_def calculate_max_allocation_def determine_suitability_def)

subsection \<open>Every assessment is a weighted average\<close>

lemma spec_weight_sum: "sum_list (map spec_weight all_categories) = 1"
  by (simp add: all_categories_def spec_weight_def)

lemma risk_weights_table: "map_of risk_weights c = Some (spec_weight c)"
  by (cases c) (simp_all add: risk_weights_def spec_weight_def)

lemma assessment_categories:
  assumes "assess_smart_contract_risk lower ad c d = Inr sc"
  shows "map category (sc # other_metrics lower d) = all_categories"
  using smart_contract_category [OF assms]
  by (simp add: other_metrics_category all_categories_def)

lemma assessment_confidences:
  assumes "assess_smart_contract_risk lower ad c d = Inr sc"
  shows "list_all (\<lambda>m. 0.7 \<le> confidence m \<and> confidence m \<le> 1) (sc # other_metrics lower d)"
proof -
  have "list_all (\<lambda>k. 0.7 \<le> k \<and> k \<le> 1) (map confidence (sc # other_metrics lower d))"
    using smart_contract_category [OF assms] by (simp add: other_metrics_confidence)
  then show ?thesis by (simp add: list_all_iff)
qed

text \<open>
  C1. The overall score of every assessment is the quotient of
  \<open>\<Sum>(score * weight * confidence)\<close> by \<open>\<Sum>(weight * confidence)\<close> over the metrics of the eight
  categories; the weight table of the code is the table of the specification and sums to 1;
  and the aggregator returns the neutral 5 whenever the denominator is zero.
\<close>

theorem overall_score_is_weighted_average:
  "(assess_opportunity lower ad c d = Inr r \<longrightarrow>
      map category (map snd (risk_metrics r)) = all_categories \<and>
      overall_score r =
        spec_numerator (map snd (risk_metrics r)) / spec_denominator (map snd (risk_metrics r))) \<and>
   map_of risk_weights k = Some (spec_weight k) \<and>
   sum_list (map spec_weight all_categories) = 1 \<and>
   calculate_overall_risk ms =
     (if 0 < spec_denominator ms then spec_numerator ms / spec_denominator ms else 5) \<and>
   (spec_denominator ms = 0 \<longrightarrow> calculate_overall_risk ms = 5)"
proof -
  have "map category (map snd (risk_metrics r)) = all_categories \<and>
        overall_score r =
          spec_numerator (map snd (risk_metrics r)) / spec_denominator (map snd (risk_metrics r))"
    if returned: "assess_opportunity lower ad c d = Inr r"
  proof -
    obtain sc where sc: "assess_smart_contract_risk lower ad c d = Inr sc"
      and ms: "map snd (risk_metrics r) = sc # other_metrics lower d"
      and o: "overall_score r = calculate_overall_risk (sc # other_metrics lower d)"
      using metrics_of_assessment [OF returned] by blast
    have "0 < spec_denominator (sc # other_metrics lower d)"
      using denominator_lower_bound [OF sc] by simp
    then show ?thesis
      unfolding ms o using assessment_categories [OF sc]
      by (simp add: calculate_overall_risk_quotient)
  qed
  then show ?thesis
    by (simp add: risk_weights_table spec_weight_sum calculate_overall_risk_quotient)
qed

theorem overall_score_is_weighted_average_witness:
  "assess_opportunity lower_ascii age_days_2026 (clock_at_day 20454) high_risk_scenario =
     Inr (projr (assess_opportunity lower_ascii age_days_2026 (clock_at_day 20454) high_risk_scenario)) \<and>
   spec_denominator [\<lparr>category = MARKET, score = 7, confidence = 0, factors = [],
                      mitigation = []\<rparr>] = 0 \<and>
   overall_score (projr (assess_opportunity lower_ascii age_days_2026 (clock_at_day 20454) high_risk_scenario)) =
     spec_numerator (map snd (risk_metrics
       (projr (assess_opportunity lower_ascii age_days_2026 (clock_at_day 20454) high_risk_scenario)))) /
     spec_denominator (map snd (risk_metrics
       (projr (assess_opportunity lower_ascii age_days_2026 (clock_at_day 20454) high_risk_scenario)))) \<and>
   calculate_overall_risk [\<lparr>category = MARKET, score = 7, confidence = 0, factors = [],
                            mitigation = []\<rparr>] = 5"
proof -
  have a: "assess_opportunity lower_ascii age_days_2026 (clock_at_day 20454) high_risk_scenario =
     Inr (projr (assess_opportunity lower_ascii age_days_2026 (clock_at_day 20454) high_risk_scenario))"
    using scenario_returns [of age_days_2026 "clock_at_day 20454"] by simp
  have z: "spec_denominator [\<lparr>category = MARKET, score = 7, confidence = 0, factors = [],
                      mitigation = []\<rparr>] = 0"
    by (simp add: spec_denominator_def)
  show ?thesis
    using a z
      overall_score_is_weighted_average [of lower_ascii age_days_2026 "clock_at_day 20454"
        high_risk_scenario
        "projr (assess_opportunity lower_ascii age_days_2026 (clock_at_day 20454) high_risk_scenario)"
        MARKET
        "[\<lparr>category = MARKET, score = 7, confidence = 0, factors = [], mitigation = []\<rparr>]"]
    by blast
qed

text \<open>
  C10. In every assessment each of the eight metrics has a confidence of at least 0.7 and each
  category weight is positive, so the total weight that the aggregation loop accumulates is
  strictly positive (at least 0.7): the branch that returns 5 is not taken, and the overall
  score is the quotient of the two accumulated totals.
\<close>

theorem degenerate_branch_unreachable:
  "assess_opportunity lower ad c d = Inr r \<Longrightarrow>
     list_all (\<lambda>m. 0.7 \<le> confidence m) (map snd (risk_metrics r)) \<and>
     list_all (\<lambda>m. 0 < dget (map_of risk_weights (category m)) 0.1) (map snd (risk_metrics r)) \<and>
     0 < snd (overall_loop (map snd (risk_metrics r)) 0 0) \<and>
     overall_score r =
       fst (overall_loop (map snd (risk_metrics r)) 0 0) /
       snd (overall_loop (map snd (risk_metrics r)) 0 0)"
proof -
  assume a: "assess_opportunity lower ad c d = Inr r"
  obtain sc where sc: "assess_smart_contract_risk lower ad c d = Inr sc"
    and ms: "map snd (risk_metrics r) = sc # other_metrics lower d"
    and o: "overall_score r = calculate_overall_risk (sc # other_metrics lower d)"
    using metrics_of_assessment [OF a] by blast
  have pos: "0 < spec_denominator (sc # other_metrics lower d)"
    using denominator_lower_bound [OF sc] by simp
  have conf: "list_all (\<lambda>m. 0.7 \<le> confidence m) (sc # other_metrics lower d)"
    using assessment_confidences [OF sc] by (simp add: list_all_iff)
  have w: "list_all (\<lambda>m. 0 < dget (map_of risk_weights (category m)) 0.1) (sc # other_metrics lower d)"
  proof -
    have "0 < spec_weight k" for k by (cases k) (simp_all add: spec_weight_def)
    then show ?thesis by (simp add: weight_lookup list_all_iff)
  qed
  show ?thesis
    unfolding ms o using pos conf w
    by (simp add: calculate_overall_risk_quotient overall_loop_sums)
qed

theorem degenerate_branch_unreachable_witness:
  "assess_opportunity lower_ascii age_days_2026 (clock_at_day 20454) empty_opportunity =
     Inr (projr (assess_opportunity lower_ascii age_days_2026 (clock_at_day 20454) empty_opportunity)) \<and>
   0 < snd (overall_loop (map snd (risk_metrics
         (projr (assess_opportunity lower_ascii age_days_2026 (clock_at_day 20454) empty_opportunity)))) 0 0)"
proof -
  have "\<exists>sc. assess_smart_contract_risk lower_ascii age_days_2026 (clock_at_day 20454) empty_opportunity = Inr sc"
    by (simp add: assess_smart_contract_risk_def check_audit_status_def empty_opportunity_def
          dget_def)
  then have a: "assess_opportunity lower_ascii age_days_2026 (clock_at_day 20454) empty_opportunity =
     Inr (projr (assess_opportunity lower_ascii age_days_2026 (clock_at_day 20454) empty_opportunity))"
    using assessment_fields(6) by fastforce
  show ?thesis
    using a degenerate_branch_unreachable [OF a] by blast
qed

subsection \<open>Protocol and impermanent-loss scores\<close>

lemma protocol_score:
  "score (assess_protocol_risk d) =
     fst (protocol_tvl_tier (dget (protocol_tvl d) 0)) * 0.3 +
     fst (protocol_age_tier (dget (protocol_age_days d) 0)) * 0.3 +
     fst (team_tier (dget (team_doxxed d) False)) * 0.2 +
     fst (exploit_tier (dget (previous_exploits d) 0)) * 0.2"
  by (simp add: assess_protocol_risk_def split: prod.split)

text \<open>
  C9. Changing \<^verbatim>\<open>previous_exploits\<close> from 0 to 1, every other field kept, never decreases the
  score of the Protocol metric: it raises it by exactly 1.4.
\<close>

theorem first_exploit_raises_protocol_score:
  "score (assess_protocol_risk (d\<lparr>previous_exploits := Some 0\<rparr>)) \<le>
     score (assess_protocol_risk (d\<lparr>previous_exploits := Some 1\<rparr>)) \<and>
   score (assess_protocol_risk (d\<lparr>previous_exploits := Some 1\<rparr>)) =
     score (assess_protocol_risk (d\<lparr>previous_exploits := Some 0\<rparr>)) + 1.4"
  by (simp add: protocol_score exploit_tier_def dget_def)

lemma add_mitigation_strategies_fst: "fst (add_mitigation_strategies st) = fst st"
  by (cases st) (simp add: add_mitigation_strategies_def)

lemma il_score_lp:
  "dget (is_lp_position d) False \<Longrightarrow>
     score (assess_impermanent_loss_risk d) =
       fst (check_concentrated_liquidity d
              (check_stable_pair d (check_il_protection d (il_base_score d, []))))"
proof -
  assume lp: "dget (is_lp_position d) False"
  have "score (assess_impermanent_loss_risk d) =
          fst (add_mitigation_strategies
                 (check_concentrated_liquidity d
                    (check_stable_pair d (check_il_protection d (il_base_score d, [])))))"
    using lp by (simp add: assess_impermanent_loss_risk_def split: prod.split)
  then show ?thesis by (simp add: add_mitigation_strategies_fst)
qed

lemma check_stable_pair_fst:
  "fst (check_stable_pair d st) = (if dget (is_stable_pair d) False then min 2 (fst st) else fst st)"
  by (cases st) (simp add: check_stable_pair_def)

lemma check_concentrated_liquidity_fst:
  "fst (check_concentrated_liquidity d st) =
     (if dget (concentrated_liquidity d) False then min 10 (fst st * 1.5) else fst st)"
  by (cases st) (simp add: check_concentrated_liquidity_def)

lemma check_il_protection_fst:
  "fst (check_il_protection d st) =
     (if dget (il_protection d) False then fst st * 0.3 else fst st)"
  by (cases st) (simp add: check_il_protection_def)

text \<open>
  C7 (as amended). For an LP position on a stable pair the impermanent-loss score is at most 3,
  whatever the other inputs; it is at most 2 when the liquidity is not concentrated. (The cap at 2
  is applied before the amplification by 1.5 of concentrated liquidity.)
\<close>

theorem stable_pair_score_bound:
  "is_lp_position d = Some True \<Longrightarrow> is_stable_pair d = Some True \<Longrightarrow>
     score (assess_impermanent_loss_risk d) \<le> 3 \<and>
     (\<not> dget (concentrated_liquidity d) False \<longrightarrow> score (assess_impermanent_loss_risk d) \<le> 2)"
  by (simp add: il_score_lp check_concentrated_liquidity_fst check_stable_pair_fst dget_def
        min_def)

theorem stable_pair_score_bound_witness:
  "is_lp_position stable_pair = Some True \<and> is_stable_pair stable_pair = Some True \<and>
   \<not> dget (concentrated_liquidity stable_pair) False \<and>
   score (assess_impermanent_loss_risk stable_pair) \<le> 2"
proof -
  have h: "is_lp_position stable_pair = Some True" "is_stable_pair stable_pair = Some True"
      "\<not> dget (concentrated_liquidity stable_pair) False"
    by (simp_all add: stable_pair_def empty_opportunity_def dget_def)
  show ?thesis using h stable_pair_score_bound [OF h(1,2)] by blast
qed

text \<open>
  C7 as stated fails: a stable pair with concentrated liquidity and every other input at its
  default scores 3.
\<close>

theorem stable_concentrated_pair_counterexample:
  "is_lp_position stable_concentrated_pair = Some True \<and>
   is_stable_pair stable_concentrated_pair = Some True \<and>
   score (assess_impermanent_loss_risk stable_concentrated_pair) = 3 \<and>
   \<not> score (assess_impermanent_loss_risk stable_concentrated_pair) \<le> 2"
proof -
  have h: "dget (is_lp_position stable_concentrated_pair) False"
    by (simp add: stable_concentrated_pair_def empty_opportunity_def dget_def)
  have "score (assess_impermanent_loss_risk stable_concentrated_pair) = 3"
    unfolding il_score_lp [OF h] check_concentrated_liquidity_fst check_stable_pair_fst
      check_il_protection_fst
    by (simp add: stable_concentrated_pair_def empty_opportunity_def dget_def il_base_score_def)
  then show ?thesis
    by (simp add: stable_concentrated_pair_def empty_opportunity_def)
qed

subsection \<open>When the entry point raises\<close>

lemma audit_loop_returns_iff:
  "(\<exists>r. audit_loop lower ad c k as b = Inr r) =
     list_all (readable ad c) (audit_readings lower k as)"
proof (induction as arbitrary: k b)
  case Nil
  then show ?case by simp
next
  case (Cons a as)
  show ?case
  proof (cases "map_of audit_firms (lower (dget (firm a) []))")
    case None
    then show ?thesis using Cons.IH [of k b] by (simp add: recognised_def)
  next
    case (Some rep)
    note rep = Some
    show ?thesis
    proof (cases "date a")
      case None
      then show ?thesis using rep by (simp add: recognised_def readable_def)
    next
      case (Some s)
      note s = Some
      show ?thesis
      proof (cases "ad (c k) s")
        case (Inl e)
        then show ?thesis using s rep by (simp add: recognised_def readable_def)
      next
        case (Inr n)
        then show ?thesis
          using s rep Cons.IH [of "Suc k"]
          by (simp add: recognised_def readable_def Let_def)
      qed
    qed
  qed
qed

lemma audit_loop_errors:
  "audit_loop lower ad c k as b = Inl e \<Longrightarrow>
     e = KeyError ''date'' \<or> (\<exists>j s. ad (c j) s = Inl e)"
proof (induction as arbitrary: k b)
  case Nil
  then show ?case by simp
next
  case (Cons a as)
  show ?case
  proof (cases "map_of audit_firms (lower (dget (firm a) []))")
    case None
    then show ?thesis using Cons.prems Cons.IH [of k b] by simp
  next
    case (Some rep)
    note rep = Some
    show ?thesis
    proof (cases "date a")
      case None
      then show ?thesis using rep Cons.prems by simp
    next
      case (Some s)
      note s = Some
      show ?thesis
      proof (cases "ad (c k) s")
        case (Inl e')
        then have "e = e'" using s rep Cons.prems by simp
        then show ?thesis using Inl by blast
      next
        case (Inr n)
        then show ?thesis
          using s rep Cons.prems Cons.IH [of "Suc k"] by (simp add: Let_def)
      qed
    qed
  qed
qed

lemma audit_loop_undated:
  "\<exists>a\<in>set as. recognised lower a \<and> date a = None \<Longrightarrow> isl (audit_loop lower ad c k as b)"
proof (induction as arbitrary: k b)
  case Nil
  then show ?case by simp
next
  case (Cons a as)
  show ?case
  proof (cases "recognised lower a \<and> date a = None")
    case True
    then show ?thesis by (auto simp: recognised_def)
  next
    case False
    then have rest: "\<exists>a\<in>set as. recognised lower a \<and> date a = None"
      using Cons.prems by auto
    show ?thesis
      using Cons.IH [OF rest]
      by (simp add: Let_def split: option.split sum.split)
  qed
qed

lemma audit_loop_unrecognised:
  "list_all (\<lambda>a. \<not> recognised lower a) as \<Longrightarrow> audit_loop lower ad c k as b = Inr b"
  by (induction as arbitrary: k b) (auto simp: recognised_def)

lemma check_audit_status_returns_iff:
  "(\<exists>st. check_audit_status lower ad c d = Inr st) =
     list_all (readable ad c) (audit_readings lower 0 (dget (audits d) []))"
proof (cases "dget (audits d) [] = []")
  case True
  then show ?thesis by (simp add: check_audit_status_def)
next
  case False
  have "(\<exists>st. check_audit_status lower ad c d = Inr st) =
          (\<exists>r. audit_loop lower ad c 0 (dget (audits d) []) 10 = Inr r)"
    using False by (auto simp: check_audit_status_def split: sum.splits)
  then show ?thesis by (simp add: audit_loop_returns_iff)
qed

lemma check_audit_status_errors:
  "check_audit_status lower ad c d = Inl e \<Longrightarrow>
     e = KeyError ''date'' \<or> (\<exists>j s. ad (c j) s = Inl e)"
  using audit_loop_errors [of lower ad c 0 "dget (audits d) []" 10 e]
  by (auto simp: check_audit_status_def split: if_splits sum.splits)

lemma check_audit_status_undated:
  assumes "\<exists>a\<in>set (dget (audits d) []). recognised lower a \<and> date a = None"
  shows "isl (check_audit_status lower ad c d)"
proof -
  have ne: "dget (audits d) [] \<noteq> []" using assms by auto
  have "isl (audit_loop lower ad c 0 (dget (audits d) []) 10)"
    using assms by (rule audit_loop_undated)
  then show ?thesis
    using ne by (cases "audit_loop lower ad c 0 (dget (audits d) []) 10")
                (simp_all add: check_audit_status_def)
qed

lemma smart_contract_isl:
  "isl (assess_smart_contract_risk lower ad c d) = isl (check_audit_status lower ad c d)"
  by (simp add: assess_smart_contract_risk_def split: sum.split)

lemma smart_contract_projl:
  "isl (check_audit_status lower ad c d) \<Longrightarrow>
     projl (assess_smart_contract_risk lower ad c d) = projl (check_audit_status lower ad c d)"
  by (cases "check_audit_status lower ad c d") (simp_all add: assess_smart_contract_risk_def)

lemma assess_opportunity_isl:
  "isl (assess_opportunity lower ad c d) = isl (assess_smart_contract_risk lower ad c d)"
  by (simp add: assess_opportunity_def Let_def split: sum.split)

lemma assess_opportunity_projl:
  "isl (assess_smart_contract_risk lower ad c d) \<Longrightarrow>
     projl (assess_opportunity lower ad c d) = projl (assess_smart_contract_risk lower ad c d)"
  by (cases "assess_smart_contract_risk lower ad c d") (simp_all add: assess_opportunity_def)

lemma returns_iff_not_isl: "(\<exists>r. x = Inr r) = (\<not> isl x)"
  by (cases x) simp_all

text \<open>
  C5 (as amended). On records whose present values have the expected types (the records of
  this model), whatever \<^verbatim>\<open>str.lower()\<close> and pandas do: absent fields of the record and an
  absent firm of an audit are defaulted, but the date of an audit whose firm is recognised is
  read without a default. The entry point returns exactly when every recognised audit has a
  date for which the pandas expression returns at the reading taken for that audit; so it raises
  whenever a recognised audit has no date. The only errors are the missing key
  \<^verbatim>\<open>date\<close> and what pandas raises on a date (one that does not parse, or one that cannot
  be subtracted from the clock reading).
\<close>

theorem raises_exactly_for_unreadable_audit:
  "(\<exists>r. assess_opportunity lower ad c d = Inr r) =
     list_all (readable ad c) (audit_readings lower 0 (dget (audits d) [])) \<and>
   ((\<exists>a\<in>set (dget (audits d) []). recognised lower a \<and> date a = None) \<longrightarrow>
      isl (assess_opportunity lower ad c d)) \<and>
   (assess_opportunity lower ad c d = Inl e \<longrightarrow>
      e = KeyError ''date'' \<or> (\<exists>j s. ad (c j) s = Inl e))"
proof -
  have "(\<exists>r. assess_opportunity lower ad c d = Inr r) =
          (\<exists>st. check_audit_status lower ad c d = Inr st)"
    by (simp only: returns_iff_not_isl assess_opportunity_isl smart_contract_isl)
  then have "(\<exists>r. assess_opportunity lower ad c d = Inr r) =
               list_all (readable ad c) (audit_readings lower 0 (dget (audits d) []))"
    by (simp only: check_audit_status_returns_iff)
  moreover have "isl (assess_opportunity lower ad c d)"
    if "\<exists>a\<in>set (dget (audits d) []). recognised lower a \<and> date a = None"
    using check_audit_status_undated [OF that]
    by (simp only: assess_opportunity_isl smart_contract_isl)
  moreover have "e = KeyError ''date'' \<or> (\<exists>j s. ad (c j) s = Inl e)"
    if raised: "assess_opportunity lower ad c d = Inl e"
  proof -
    have l: "isl (check_audit_status lower ad c d)"
      using raised assess_opportunity_isl [of lower ad c d] smart_contract_isl [of lower ad c d]
      by simp
    then have "projl (check_audit_status lower ad c d) = e"
      using raised assess_opportunity_projl [of lower ad c d]
        smart_contract_projl [of lower ad c d] smart_contract_isl [of lower ad c d] by simp
    then have "check_audit_status lower ad c d = Inl e"
      using l by (cases "check_audit_status lower ad c d") simp_all
    then show ?thesis by (rule check_audit_status_errors)
  qed
  ultimately show ?thesis by blast
qed

lemma anonymous_audit_unrecognised:
  "list_all (\<lambda>a. \<not> recognised lower_ascii a) (dget (audits anonymous_audit) [])"
  by (simp add: anonymous_audit_def empty_opportunity_def dget_def recognised_def lower_ascii_def
        audit_firms_def)

lemma undated_audit_raises:
  "assess_opportunity lower_ascii ad c undated_audit = Inl (KeyError ''date'')"
  by (simp add: assess_opportunity_def assess_smart_contract_risk_def check_audit_status_def
        undated_audit_def empty_opportunity_def dget_def lower_certik audit_firms_def)

lemma unparsed_audit_raises:
  "assess_opportunity lower_ascii age_days_2026 c unparsed_audit = Inl (ValueError ''soon'')"
  by (simp add: assess_opportunity_def assess_smart_contract_risk_def check_audit_status_def
        unparsed_audit_def empty_opportunity_def dget_def lower_certik audit_firms_def
        age_days_2026_def)

lemma aware_audit_raises:
  "assess_opportunity lower_ascii age_days_2026 c aware_audit =
     Inl (TypeError ''2026-01-01T00:00:00Z'')"
  by (simp add: assess_opportunity_def assess_smart_contract_risk_def check_audit_status_def
        aware_audit_def empty_opportunity_def dget_def lower_certik audit_firms_def
        age_days_2026_def)

text \<open>
  The date is read as soon as the lower-cased firm is a key of the table, whatever characters
  the firm is written with: for every \<open>lower\<close> that maps the firm to \<^verbatim>\<open>certik\<close>, an audit
  without a date raises the missing key.
\<close>

lemma lowered_firm_without_date_raises:
  assumes "lower f = ''certik''"
  shows "assess_opportunity lower ad c
           (empty_opportunity\<lparr>audits := Some [\<lparr>firm = Some f, date = None\<rparr>]\<rparr>) =
         Inl (KeyError ''date'')"
  using assms
  by (simp add: assess_opportunity_def assess_smart_contract_risk_def check_audit_status_def
        empty_opportunity_def dget_def audit_firms_def)

theorem raises_exactly_for_unreadable_audit_witness:
  "\<not> isl (assess_opportunity lower_ascii age_days_2026 (clock_at_day 20454) anonymous_audit) \<and>
   isl (assess_opportunity lower_ascii age_days_2026 (clock_at_day 20454) undated_audit) \<and>
   assess_opportunity lower_ascii age_days_2026 (clock_at_day 20454) undated_audit =
     Inl (KeyError ''date'') \<and>
   assess_opportunity lower_ascii age_days_2026 (clock_at_day 20454) unparsed_audit =
     Inl (ValueError ''soon'') \<and>
   assess_opportunity lower_ascii age_days_2026 (clock_at_day 20454) aware_audit =
     Inl (TypeError ''2026-01-01T00:00:00Z'')"
proof -
  have none: "audit_readings lower_ascii 0 (dget (audits anonymous_audit) []) = []"
    by (simp add: anonymous_audit_def empty_opportunity_def dget_def recognised_def
          lower_ascii_def audit_firms_def)
  have "\<exists>r. assess_opportunity lower_ascii age_days_2026 (clock_at_day 20454) anonymous_audit =
          Inr r"
    using raises_exactly_for_unreadable_audit
            [of lower_ascii age_days_2026 "clock_at_day 20454" anonymous_audit
                "KeyError ''date''"]
    unfolding none by simp
  then have returns:
    "\<not> isl (assess_opportunity lower_ascii age_days_2026 (clock_at_day 20454) anonymous_audit)"
    by (simp only: returns_iff_not_isl not_False_eq_True)
  have undated: "\<exists>a\<in>set (dget (audits undated_audit) []). recognised lower_ascii a \<and> date a = None"
    by (simp add: undated_audit_def empty_opportunity_def dget_def recognised_def lower_certik
          audit_firms_def)
  have raises:
    "isl (assess_opportunity lower_ascii age_days_2026 (clock_at_day 20454) undated_audit)"
    using undated raises_exactly_for_unreadable_audit
            [of lower_ascii age_days_2026 "clock_at_day 20454" undated_audit
                "KeyError ''date''"]
    by blast
  show ?thesis
    using returns raises undated_audit_raises [of age_days_2026 "clock_at_day 20454"]
      unparsed_audit_raises [of "clock_at_day 20454"] aware_audit_raises [of "clock_at_day 20454"]
    by (simp only: simp_thms)
qed

text \<open>
  C5 as stated fails: a record whose only audit names a recognised firm and has no date (an
  absent sub-field of a list entry) makes the entry point raise the missing key.
\<close>

theorem undated_audit_counterexample:
  "date (hd (dget (audits undated_audit) [])) = None \<and>
   assess_opportunity lower_ascii age_days_2026 (clock_at_day 20454) undated_audit =
     Inl (KeyError ''date'')"
  by (simp add: undated_audit_raises) (simp add: undated_audit_def empty_opportunity_def dget_def)

subsection \<open>Dependence on the clock\<close>

lemma check_audit_status_unrecognised:
  assumes "list_all (\<lambda>a. \<not> recognised lower a) (dget (audits d) [])"
  shows "check_audit_status lower ad c d =
           (if dget (audits d) [] \<noteq> [] then Inr (10, [(''audit_quality'', FNum 0)], [])
            else Inr (10, [(''audit_quality'', FNum 0)],
                      [[Sym WarningSign, Lit '' Get protocol audited by reputable firm'']]))"
  by (simp add: check_audit_status_def audit_loop_unrecognised [OF assms])

text \<open>
  C4 (as amended). The assessment is a function of the record and of the clock readings taken
  in the audit loop. When the record lists no audit whose firm, lower-cased by
  \<^verbatim>\<open>str.lower()\<close>, is a key of the table of audit firms, the clock is not read and no
  date is given to pandas: the whole result is the same whatever they are.
\<close>

theorem clock_independent_without_recognised_audit:
  assumes "list_all (\<lambda>a. \<not> recognised lower a) (dget (audits d) [])"
  shows "assess_opportunity lower ad1 c1 d = assess_opportunity lower ad2 c2 d"
proof -
  have "check_audit_status lower ad1 c1 d = check_audit_status lower ad2 c2 d"
    by (simp only: check_audit_status_unrecognised [OF assms])
  then have "assess_smart_contract_risk lower ad1 c1 d = assess_smart_contract_risk lower ad2 c2 d"
    by (simp only: assess_smart_contract_risk_def)
  then show ?thesis by (simp only: assess_opportunity_def)
qed

theorem clock_independent_without_recognised_audit_witness:
  "list_all (\<lambda>a. \<not> recognised lower_ascii a) (dget (audits anonymous_audit) []) \<and>
   assess_opportunity lower_ascii age_days_2026 (clock_at_day 20554) anonymous_audit =
     assess_opportunity lower_ascii age_days_2026 (clock_at_day 20654) anonymous_audit"
  using anonymous_audit_unrecognised
    clock_independent_without_recognised_audit [OF anonymous_audit_unrecognised,
      of age_days_2026 "clock_at_day 20554" age_days_2026 "clock_at_day 20654"]
  by simp

lemma certik_audit_loop:
  "audit_loop lower_ascii age_days_2026 (clock_at_day n) 0 (dget (audits certik_audit_2026) []) 10 =
     Inr (min 10 ((1 - 0.9 * max 0.5 (1 - real_of_int (n - 20454) / 365)) * 10))"
proof -
  have "(n * ns_per_day - 20454 * ns_per_day) div ns_per_day = n - 20454"
    by (simp add: ns_per_day_def left_diff_distrib [symmetric])
  then show ?thesis
    by (simp add: certik_audit_2026_def empty_opportunity_def dget_def lower_certik
          audit_firms_def age_days_2026_def clock_at_day_def Let_def)
qed


lemma after_audit_status_plain:
  assumes "\<not> dget (bug_bounty_size d) 0 > 100000" "\<not> dget (contract_age_days d) 0 > 90"
    "\<not> dget (known_vulnerabilities d) 0 > 0" "\<not> dget (upgradeable d) False"
  shows "score (after_audit_status d st) = min 10 (fst st)"
  using assms
  by (cases st)
     (simp add: after_audit_status_def check_bug_bounty_def check_contract_age_def
        check_known_vulnerabilities_def check_upgrade_mechanism_def smart_contract_metric_def)

lemma check_audit_status_listed:
  assumes "dget (audits d) [] \<noteq> []" "audit_loop lower ad c 0 (dget (audits d) []) 10 = Inr a"
  shows "\<exists>fs ms. check_audit_status lower ad c d = Inr (a, fs, ms)"
  using assms by (simp add: check_audit_status_def)

lemma certik_smart_contract:
  "\<not> isl (assess_smart_contract_risk lower_ascii age_days_2026 (clock_at_day n) certik_audit_2026)"
  "score (projr (assess_smart_contract_risk lower_ascii age_days_2026 (clock_at_day n) certik_audit_2026)) =
     min 10 ((1 - 0.9 * max 0.5 (1 - real_of_int (n - 20454) / 365)) * 10)"
proof -
  have ne: "dget (audits certik_audit_2026) [] \<noteq> []"
    by (simp add: certik_audit_2026_def empty_opportunity_def dget_def)
  have rest: "\<not> dget (bug_bounty_size certik_audit_2026) 0 > 100000"
      "\<not> dget (contract_age_days certik_audit_2026) 0 > 90"
      "\<not> dget (known_vulnerabilities certik_audit_2026) 0 > 0"
      "\<not> dget (upgradeable certik_audit_2026) False"
    by (simp_all add: certik_audit_2026_def empty_opportunity_def dget_def)
  obtain fs ms where st:
    "check_audit_status lower_ascii age_days_2026 (clock_at_day n) certik_audit_2026 =
       Inr (min 10 ((1 - 0.9 * max 0.5 (1 - real_of_int (n - 20454) / 365)) * 10), fs, ms)"
    using check_audit_status_listed [OF ne certik_audit_loop] by blast
  show "\<not> isl (assess_smart_contract_risk lower_ascii age_days_2026 (clock_at_day n) certik_audit_2026)"
    by (simp only: smart_contract_isl st sum.disc not_False_eq_True)
  have "projr (assess_smart_contract_risk lower_ascii age_days_2026 (clock_at_day n) certik_audit_2026) =
          after_audit_status certik_audit_2026
            (min 10 ((1 - 0.9 * max 0.5 (1 - real_of_int (n - 20454) / 365)) * 10), fs, ms)"
    by (simp only: assess_smart_contract_risk_def st sum.case sum.sel)
  then show "score (projr (assess_smart_contract_risk lower_ascii age_days_2026 (clock_at_day n) certik_audit_2026)) =
     min 10 ((1 - 0.9 * max 0.5 (1 - real_of_int (n - 20454) / 365)) * 10)"
    by (simp only: after_audit_status_plain [OF rest] fst_conv min.left_idem)
qed

lemma not_isl_obtain:
  assumes "\<not> isl x"
  obtains r where "x = Inr r"
  using assms by (cases x) simp_all


text \<open>
  C4 as stated fails: the assessor reads the clock. The same record, with one audit by a
  recognised firm dated 1 January 2026, assessed 100 days and 200 days after that date, gets
  the smart-contract scores 253/73 and 11/2, so the two results differ.
\<close>

theorem same_record_two_clocks_counterexample:
  "score (projr (assess_smart_contract_risk lower_ascii age_days_2026 (clock_at_day 20554) certik_audit_2026))
     = 253 / 73 \<and>
   score (projr (assess_smart_contract_risk lower_ascii age_days_2026 (clock_at_day 20654) certik_audit_2026))
     = 11 / 2 \<and>
   assess_opportunity lower_ascii age_days_2026 (clock_at_day 20554) certik_audit_2026 \<noteq>
     assess_opportunity lower_ascii age_days_2026 (clock_at_day 20654) certik_audit_2026"
proof -
  have s1: "score (projr (assess_smart_contract_risk lower_ascii age_days_2026 (clock_at_day 20554)
                    certik_audit_2026)) = 253 / 73"
    unfolding certik_smart_contract(2) by simp
  have s2: "score (projr (assess_smart_contract_risk lower_ascii age_days_2026 (clock_at_day 20654)
                    certik_audit_2026)) = 11 / 2"
    unfolding certik_smart_contract(2) by simp
  obtain m1 where m1: "assess_smart_contract_risk lower_ascii age_days_2026 (clock_at_day 20554)
                         certik_audit_2026 = Inr m1"
    using not_isl_obtain [OF certik_smart_contract(1) [of 20554]] .
  obtain m2 where m2: "assess_smart_contract_risk lower_ascii age_days_2026 (clock_at_day 20654)
                         certik_audit_2026 = Inr m2"
    using not_isl_obtain [OF certik_smart_contract(1) [of 20654]] .
  have v1: "score m1 = 253 / 73" using s1 unfolding m1 by simp
  have v2: "score m2 = 11 / 2" using s2 unfolding m2 by simp
  have "assess_opportunity lower_ascii age_days_2026 (clock_at_day 20554) certik_audit_2026 \<noteq>
     assess_opportunity lower_ascii age_days_2026 (clock_at_day 20654) certik_audit_2026"
  proof
    assume "assess_opportunity lower_ascii age_days_2026 (clock_at_day 20554) certik_audit_2026 =
     assess_opportunity lower_ascii age_days_2026 (clock_at_day 20654) certik_audit_2026"
    then have "map snd (risk_metrics (projr (assess_opportunity lower_ascii age_days_2026
                 (clock_at_day 20554) certik_audit_2026))) =
               map snd (risk_metrics (projr (assess_opportunity lower_ascii age_days_2026
                 (clock_at_day 20654) certik_audit_2026)))"
      by (simp only:)
    then have "m1 # other_metrics lower_ascii certik_audit_2026 = m2 # other_metrics lower_ascii certik_audit_2026"
      unfolding assessment_fields(2) [OF m1] assessment_fields(2) [OF m2] .
    then have "score m1 = score m2" by (simp only: list.inject)
    then show False unfolding v1 v2 by simp
  qed
  then show ?thesis using s1 s2 by simp
qed

text \<open>
  C8 fails on the code. A record whose only audit is by a recognised firm and is dated 365
  days after the clock reading gets the age factor 2 and the smart-contract score -8, outside
  the range from 0 to 10 that the metric documents: the score is never clamped from below.
\<close>

theorem future_audit_negative_score:
  "\<not> isl (assess_smart_contract_risk lower_ascii age_days_2026 (clock_at_day 20089) certik_audit_2026) \<and>
   score (projr (assess_smart_contract_risk lower_ascii age_days_2026 (clock_at_day 20089) certik_audit_2026))
     = - 8 \<and>
   \<not> 0 \<le> score (projr (assess_smart_contract_risk lower_ascii age_days_2026 (clock_at_day 20089)
                        certik_audit_2026))"
proof -
  have "score (projr (assess_smart_contract_risk lower_ascii age_days_2026 (clock_at_day 20089)
                 certik_audit_2026)) = - 8"
    unfolding certik_smart_contract(2) by simp
  then show ?thesis using certik_smart_contract(1) [of 20089] by simp
qed

subsection \<open>The smart-contract score without audits\<close>

lemma check_bug_bounty_fst:
  "fst (check_bug_bounty d st) =
     fst st * (if dget (bug_bounty_size d) 0 > 1000000 then 0.8
               else if dget (bug_bounty_size d) 0 > 100000 then 0.9 else 1)"
  by (cases st) (simp add: check_bug_bounty_def Let_def)

lemma check_contract_age_fst:
  "fst (check_contract_age d st) =
     fst st * (if dget (contract_age_days d) 0 > 365 then 0.7
               else if dget (contract_age_days d) 0 > 90 then 0.85 else 1)"
  by (cases st) (simp add: check_contract_age_def Let_def)

lemma check_known_vulnerabilities_fst:
  "fst (check_known_vulnerabilities d st) =
     (if dget (known_vulnerabilities d) 0 > 0 then min 10 (fst st + 3) else fst st)"
  by (cases st) (simp add: check_known_vulnerabilities_def)

lemma check_upgrade_mechanism_fst:
  "fst (check_upgrade_mechanism d st) =
     (if dget (upgradeable d) False \<and> \<not> dget (timelock_days d) 0 > 2
      then min 10 (fst st + 2) else fst st)"
  by (cases st) (simp add: check_upgrade_mechanism_def)

text \<open>Every stage only appends to the factors and to the mitigations.\<close>

lemma check_bug_bounty_appends:
  "\<exists>fs' ms'. snd (check_bug_bounty d (a, fs, ms)) = (fs @ fs', ms @ ms')"
  by (simp add: check_bug_bounty_def Let_def)

lemma check_contract_age_appends:
  "\<exists>fs' ms'. snd (check_contract_age d (a, fs, ms)) = (fs @ fs', ms @ ms')"
  by (simp add: check_contract_age_def Let_def)

lemma check_known_vulnerabilities_appends:
  "\<exists>fs' ms'. snd (check_known_vulnerabilities d (a, fs, ms)) = (fs @ fs', ms @ ms')"
  by (simp add: check_known_vulnerabilities_def)

lemma check_upgrade_mechanism_appends:
  "\<exists>fs' ms'. snd (check_upgrade_mechanism d (a, fs, ms)) = (fs @ fs', ms @ ms')"
  by (simp add: check_upgrade_mechanism_def)

lemma smart_contract_metric_lists:
  "factors (smart_contract_metric st) = fst (snd st)"
  "mitigation (smart_contract_metric st) = snd (snd st)"
  by (cases st; simp add: smart_contract_metric_def)+

lemma after_audit_status_appends:
  "\<exists>fs' ms'. factors (after_audit_status d (a, fs, ms)) = fs @ fs' \<and>
             mitigation (after_audit_status d (a, fs, ms)) = ms @ ms'"
proof -
  obtain a1 f1 m1 where s1: "check_bug_bounty d (a, fs, ms) = (a1, fs @ f1, ms @ m1)"
    using check_bug_bounty_appends [of d a fs ms]
    by (cases "check_bug_bounty d (a, fs, ms)") auto
  obtain a2 f2 m2 where
    s2: "check_contract_age d (a1, fs @ f1, ms @ m1) = (a2, fs @ f1 @ f2, ms @ m1 @ m2)"
    using check_contract_age_appends [of d a1 "fs @ f1" "ms @ m1"]
    by (cases "check_contract_age d (a1, fs @ f1, ms @ m1)") auto
  obtain a3 f3 m3 where
    s3: "check_known_vulnerabilities d (a2, fs @ f1 @ f2, ms @ m1 @ m2) =
           (a3, fs @ f1 @ f2 @ f3, ms @ m1 @ m2 @ m3)"
    using check_known_vulnerabilities_appends [of d a2 "fs @ f1 @ f2" "ms @ m1 @ m2"]
    by (cases "check_known_vulnerabilities d (a2, fs @ f1 @ f2, ms @ m1 @ m2)") auto
  obtain a4 f4 m4 where
    s4: "check_upgrade_mechanism d (a3, fs @ f1 @ f2 @ f3, ms @ m1 @ m2 @ m3) =
           (a4, fs @ f1 @ f2 @ f3 @ f4, ms @ m1 @ m2 @ m3 @ m4)"
    using check_upgrade_mechanism_appends [of d a3 "fs @ f1 @ f2 @ f3" "ms @ m1 @ m2 @ m3"]
    by (cases "check_upgrade_mechanism d (a3, fs @ f1 @ f2 @ f3, ms @ m1 @ m2 @ m3)") auto
  have "factors (after_audit_status d (a, fs, ms)) = fs @ (f1 @ f2 @ f3 @ f4)"
    by (simp only: after_audit_status_def s1 s2 s3 s4 smart_contract_metric_lists fst_conv
          snd_conv)
  moreover have "mitigation (after_audit_status d (a, fs, ms)) = ms @ (m1 @ m2 @ m3 @ m4)"
    by (simp only: after_audit_status_def s1 s2 s3 s4 smart_contract_metric_lists fst_conv
          snd_conv)
  ultimately show ?thesis by blast
qed

lemma after_audit_status_score:
  "score (after_audit_status d st) =
     min 10 (fst (check_upgrade_mechanism d
                    (check_known_vulnerabilities d
                       (check_contract_age d (check_bug_bounty d st)))))"
  by (simp add: after_audit_status_def smart_contract_metric_sel)

lemma after_audit_status_bounds:
  assumes "0 \<le> fst st" "fst st \<le> 10"
  shows "fst st * 0.56 \<le> score (after_audit_status d st) \<and> score (after_audit_status d st) \<le> 10"
proof -
  let ?b = "fst (check_bug_bounty d st)"
  let ?c = "fst (check_contract_age d (check_bug_bounty d st))"
  let ?v = "fst (check_known_vulnerabilities d (check_contract_age d (check_bug_bounty d st)))"
  let ?u = "fst (check_upgrade_mechanism d (check_known_vulnerabilities d
                  (check_contract_age d (check_bug_bounty d st))))"
  have b: "fst st * 0.8 \<le> ?b \<and> ?b \<le> fst st"
    using assms(1) by (simp add: check_bug_bounty_fst)
  have c: "?b * 0.7 \<le> ?c \<and> ?c \<le> ?b"
    using b assms(1) by (simp add: check_contract_age_fst)
  have v: "?c \<le> ?v \<and> ?v \<le> 10"
    using c b assms(2) by (simp add: check_known_vulnerabilities_fst)
  have u: "?v \<le> ?u \<and> ?u \<le> 10"
    using v by (simp add: check_upgrade_mechanism_fst)
  have "fst st * 0.56 \<le> ?u" using b c v u by simp
  then show ?thesis using u by (simp add: after_audit_status_score)
qed

lemma check_audit_status_no_audits:
  "dget (audits d) [] = [] \<Longrightarrow>
     check_audit_status lower ad c d =
       Inr (10, [(''audit_quality'', FNum 0)],
            [[Sym WarningSign, Lit '' Get protocol audited by reputable firm'']])"
  by (simp add: check_audit_status_def)

text \<open>
  C6 (as amended). With no audits listed (the key absent or the list empty) the audit check
  leaves the running score at its start, the maximum 10, records the factor
  \<^verbatim>\<open>audit_quality\<close> as 0 and makes the prompt to get audited the first mitigation. The
  category score is then at least 5.6 (10 discounted by at most 0.8 and 0.7) and at most 10.
\<close>

theorem no_audits_start_from_maximum_risk:
  assumes "dget (audits d) [] = []"
  shows "check_audit_status lower ad c d =
           Inr (10, [(''audit_quality'', FNum 0)],
                [[Sym WarningSign, Lit '' Get protocol audited by reputable firm'']]) \<and>
         \<not> isl (assess_smart_contract_risk lower ad c d) \<and>
         map_of (factors (projr (assess_smart_contract_risk lower ad c d))) ''audit_quality'' =
           Some (FNum 0) \<and>
         hd (mitigation (projr (assess_smart_contract_risk lower ad c d))) =
           [Sym WarningSign, Lit '' Get protocol audited by reputable firm''] \<and>
         5.6 \<le> score (projr (assess_smart_contract_risk lower ad c d)) \<and>
         score (projr (assess_smart_contract_risk lower ad c d)) \<le> 10"
proof -
  let ?st = "(10 :: real, [(''audit_quality'', FNum 0)],
              [[Sym WarningSign, Lit '' Get protocol audited by reputable firm'']])"
  have st: "check_audit_status lower ad c d = Inr ?st"
    using assms by (rule check_audit_status_no_audits)
  have m: "projr (assess_smart_contract_risk lower ad c d) = after_audit_status d ?st"
    by (simp only: assess_smart_contract_risk_def st sum.case sum.sel)
  have r: "\<not> isl (assess_smart_contract_risk lower ad c d)"
    by (simp only: smart_contract_isl st sum.disc not_False_eq_True)
  obtain fs' ms' where
    f: "factors (after_audit_status d ?st) = [(''audit_quality'', FNum 0)] @ fs'" and
    g: "mitigation (after_audit_status d ?st) =
          [[Sym WarningSign, Lit '' Get protocol audited by reputable firm'']] @ ms'"
    using after_audit_status_appends by blast
  have b: "fst ?st * 0.56 \<le> score (after_audit_status d ?st) \<and>
           score (after_audit_status d ?st) \<le> 10"
    by (rule after_audit_status_bounds) simp_all
  show ?thesis
    unfolding m f g using st r b by simp
qed

theorem no_audits_start_from_maximum_risk_witness:
  "dget (audits empty_opportunity) [] = [] \<and>
   5.6 \<le> score (projr (assess_smart_contract_risk lower_ascii age_days_2026 (clock_at_day 20454)
                         empty_opportunity))"
proof -
  have h: "dget (audits empty_opportunity) [] = []"
    by (simp add: empty_opportunity_def dget_def)
  show ?thesis
    using h no_audits_start_from_maximum_risk
            [OF h, of lower_ascii age_days_2026 "clock_at_day 20454"]
    by blast
qed

text \<open>
  C6 as stated fails: on the record with every key absent the smart-contract score is 10,
  all of it from the audit check, whereas an audit component of 0 would give the score 0.
\<close>

theorem no_audits_counterexample:
  "score (projr (assess_smart_contract_risk lower_ascii age_days_2026 (clock_at_day 20454) empty_opportunity))
     = 10 \<and>
   score_without_audit_component empty_opportunity = 0 \<and>
   score (projr (assess_smart_contract_risk lower_ascii age_days_2026 (clock_at_day 20454) empty_opportunity))
     \<noteq> score_without_audit_component empty_opportunity"
proof -
  have rest: "\<not> dget (bug_bounty_size empty_opportunity) 0 > 100000"
      "\<not> dget (contract_age_days empty_opportunity) 0 > 90"
      "\<not> dget (known_vulnerabilities empty_opportunity) 0 > 0"
      "\<not> dget (upgradeable empty_opportunity) False"
    by (simp_all add: empty_opportunity_def dget_def)
  have h: "dget (audits empty_opportunity) [] = []"
    by (simp add: empty_opportunity_def dget_def)
  have "projr (assess_smart_contract_risk lower_ascii age_days_2026 (clock_at_day 20454) empty_opportunity) =
          after_audit_status empty_opportunity
            (10, [(''audit_quality'', FNum 0)],
             [[Sym WarningSign, Lit '' Get protocol audited by reputable firm'']])"
    by (simp only: assess_smart_contract_risk_def check_audit_status_no_audits [OF h] sum.case
          sum.sel)
  then have a: "score (projr (assess_smart_contract_risk lower_ascii age_days_2026 (clock_at_day 20454)
                         empty_opportunity)) = 10"
    by (simp add: after_audit_status_plain [OF rest])
  have b: "score_without_audit_component empty_opportunity = 0"
    by (simp add: score_without_audit_component_def after_audit_status_plain [OF rest])
  show ?thesis using a b by simp
qed

subsection \<open>Scores that are in range for every record\<close>

lemma liquidity_score:
  "score (assess_liquidity_risk d) =
     fst (liquidity_tvl_tier (dget (tvl d) 0)) * 0.4 +
     fst (turnover_tier (dget (tvl d) 0) (dget (volume_24h d) 0)) * 0.3 +
     fst (lp_concentration_tier (dget (unique_liquidity_providers d) 0)) * 0.2 +
     fst (lock_period_tier (dget (lock_period_days d) 0)) * 0.1"
  by (simp add: assess_liquidity_risk_def split: prod.split)

lemma liquidity_tier_bounds:
  "1 \<le> fst (liquidity_tvl_tier v) \<and> fst (liquidity_tvl_tier v) \<le> 9"
  "2 \<le> fst (turnover_tier v w) \<and> fst (turnover_tier v w) \<le> 10"
  "2 \<le> fst (lp_concentration_tier n) \<and> fst (lp_concentration_tier n) \<le> 8"
  "0 \<le> fst (lock_period_tier l) \<and> fst (lock_period_tier l) \<le> 10"
  by (simp_all add: liquidity_tvl_tier_def turnover_tier_def lp_concentration_tier_def
        lock_period_tier_def Let_def)

lemma liquidity_score_bounds:
  "0 \<le> score (assess_liquidity_risk d) \<and> score (assess_liquidity_risk d) \<le> 10"
  using liquidity_tier_bounds(1) [of "dget (tvl d) 0"]
    liquidity_tier_bounds(2) [of "dget (tvl d) 0" "dget (volume_24h d) 0"]
    liquidity_tier_bounds(3) [of "dget (unique_liquidity_providers d) 0"]
    liquidity_tier_bounds(4) [of "dget (lock_period_days d) 0"]
  unfolding liquidity_score by linarith

lemma protocol_tier_bounds:
  "1 \<le> fst (protocol_tvl_tier v) \<and> fst (protocol_tvl_tier v) \<le> 8"
  "2 \<le> fst (protocol_age_tier a) \<and> fst (protocol_age_tier a) \<le> 8"
  "3 \<le> fst (team_tier b) \<and> fst (team_tier b) \<le> 7"
  "0 \<le> fst (exploit_tier n) \<and> fst (exploit_tier n) \<le> 10"
  by (simp_all add: protocol_tvl_tier_def protocol_age_tier_def team_tier_def exploit_tier_def)

lemma protocol_score_bounds:
  "0 \<le> score (assess_protocol_risk d) \<and> score (assess_protocol_risk d) \<le> 10"
  using protocol_tier_bounds(1) [of "dget (protocol_tvl d) 0"]
    protocol_tier_bounds(2) [of "dget (protocol_age_days d) 0"]
    protocol_tier_bounds(3) [of "dget (team_doxxed d) False"]
    protocol_tier_bounds(4) [of "dget (previous_exploits d) 0"]
  unfolding protocol_score by linarith

lemma market_score:
  "score (assess_market_risk d) =
     fst (token_type_tier (dget (token_types d) [])) * 0.5 +
     fst (market_correlation_tier \<bar>dget (btc_correlation d) 0.5\<bar>) * 0.3 +
     fst (macro_tier (dget (sensitive_to_rates d) False)) * 0.2"
  by (simp add: assess_market_risk_def split: prod.split)

lemma market_tier_bounds:
  "2 \<le> fst (token_type_tier ts) \<and> fst (token_type_tier ts) \<le> 9"
  "3 \<le> fst (market_correlation_tier x) \<and> fst (market_correlation_tier x) \<le> 7"
  "3 \<le> fst (macro_tier b) \<and> fst (macro_tier b) \<le> 6"
  by (simp_all add: token_type_tier_def market_correlation_tier_def macro_tier_def)

lemma market_score_bounds:
  "0 \<le> score (assess_market_risk d) \<and> score (assess_market_risk d) \<le> 10"
  using market_tier_bounds(1) [of "dget (token_types d) []"]
    market_tier_bounds(2) [of "\<bar>dget (btc_correlation d) 0.5\<bar>"]
    market_tier_bounds(3) [of "dget (sensitive_to_rates d) False"]
  unfolding market_score by linarith

lemma regulatory_score:
  "score (assess_regulatory_risk d) =
     fst (geo_tier (dget (restricted_regions d) [])) * 0.4 +
     fst (kyc_tier (dget (kyc_required d) False)) * 0.2 +
     fst (security_tier (dget (potential_security d) False)) * 0.4"
  by (simp add: assess_regulatory_risk_def split: prod.split)

lemma regulatory_tier_bounds:
  "3 \<le> fst (geo_tier rs) \<and> fst (geo_tier rs) \<le> 7"
  "2 \<le> fst (kyc_tier k) \<and> fst (kyc_tier k) \<le> 5"
  "3 \<le> fst (security_tier b) \<and> fst (security_tier b) \<le> 8"
  by (simp_all add: geo_tier_def kyc_tier_def security_tier_def)

lemma regulatory_score_bounds:
  "0 \<le> score (assess_regulatory_risk d) \<and> score (assess_regulatory_risk d) \<le> 10"
  using regulatory_tier_bounds(1) [of "dget (restricted_regions d) []"]
    regulatory_tier_bounds(2) [of "dget (kyc_required d) False"]
    regulatory_tier_bounds(3) [of "dget (potential_security d) False"]
  unfolding regulatory_score by linarith

lemma oracle_table_bounds:
  "2 \<le> dget (map_of oracle_scores s) 9 \<and> dget (map_of oracle_scores s) 9 \<le> 9"
  by (simp add: oracle_scores_def dget_def)

lemma bridge_table_bounds:
  "2 \<le> dget (map_of bridge_scores s) 9 \<and> dget (map_of bridge_scores s) 9 \<le> 9"
  by (simp add: bridge_scores_def dget_def)

lemma oracle_stage_fst:
  "fst (oracle_reputation lower p) = dget (map_of oracle_scores (lower p)) 9"
  "fst (check_multi_oracle d st) = (if dget (multi_oracle d) False then fst st * 0.6 else fst st)"
  "fst (check_twap d st) = (if dget (twap_enabled d) False then fst st * 0.8 else fst st)"
  by (simp add: oracle_reputation_def Let_def)
     (cases st; simp add: check_multi_oracle_def check_twap_def)+

lemma oracle_score:
  "score (assess_oracle_risk lower d) =
     fst (check_twap d (check_multi_oracle d
            (oracle_reputation lower (dget (oracle_provider d) ''unknown''))))"
  by (simp add: assess_oracle_risk_def split: prod.split)

lemma oracle_score_bounds:
  "0 \<le> score (assess_oracle_risk lower d) \<and> score (assess_oracle_risk lower d) \<le> 10"
  using oracle_table_bounds [of "lower (dget (oracle_provider d) ''unknown'')"]
  by (simp add: oracle_score oracle_stage_fst)

lemma bridge_stage_fst:
  "fst (bridge_reputation lower p) = dget (map_of bridge_scores (lower p)) 9"
  "fst (check_bridge_tvl d st) =
     (if dget (bridge_tvl d) 0 > 1000000000 then fst st * 0.7
      else if dget (bridge_tvl d) 0 < 10000000 then min 10 (fst st * 1.5) else fst st)"
  "fst (check_bridge_hacks d st) =
     (if dget (bridge_hacked_before d) False then min 10 (fst st + 3) else fst st)"
  by (simp add: bridge_reputation_def)
     (cases st; simp add: check_bridge_tvl_def check_bridge_hacks_def Let_def)+

lemma bridge_score:
  "score (assess_bridge_risk lower d) =
     (if \<not> dget (uses_bridge d) False then 0
      else fst (check_bridge_hacks d (check_bridge_tvl d
                  (bridge_reputation lower (dget (bridge_provider d) ''unknown'')))))"
  by (simp add: assess_bridge_risk_def split: prod.split)

lemma bridge_score_bounds:
  "0 \<le> score (assess_bridge_risk lower d) \<and> score (assess_bridge_risk lower d) \<le> 10"
  using bridge_table_bounds [of "lower (dget (bridge_provider d) ''unknown'')"]
  by (simp add: bridge_score bridge_stage_fst)

subsection \<open>Scores that are in range on sensible records\<close>

lemma il_base_score_bounds:
  assumes "0 \<le> dget (token1_volatility d) 0.5" "0 \<le> dget (token2_volatility d) 0.5"
    "\<bar>dget (token_correlation d) 0\<bar> \<le> 1"
  shows "0 \<le> il_base_score d \<and> il_base_score d \<le> 7.5"
proof -
  let ?v1 = "dget (token1_volatility d) 0.5" and ?v2 = "dget (token2_volatility d) 0.5"
  let ?vr = "min 10 ((?v1 + ?v2) / 2 * 20)"
  let ?cr = "(1 - \<bar>dget (token_correlation d) 0\<bar>) * 5"
  let ?dr = "min 5 (\<bar>?v1 - ?v2\<bar> * 10)"
  have vr: "0 \<le> ?vr \<and> ?vr \<le> 10" using assms(1,2) by simp
  have cr: "0 \<le> ?cr \<and> ?cr \<le> 5" using assms(3) by simp
  have dr: "0 \<le> ?dr \<and> ?dr \<le> 5" by simp
  have "il_base_score d = ?vr * 0.5 + ?cr * 0.3 + ?dr * 0.2"
    by (simp add: il_base_score_def Let_def)
  then show ?thesis using vr cr dr by linarith
qed

lemma il_score_bounds:
  assumes "0 \<le> dget (token1_volatility d) 0.5" "0 \<le> dget (token2_volatility d) 0.5"
    "\<bar>dget (token_correlation d) 0\<bar> \<le> 1"
  shows "0 \<le> score (assess_impermanent_loss_risk d) \<and>
         score (assess_impermanent_loss_risk d) \<le> 10"
proof (cases "dget (is_lp_position d) False")
  case False
  then show ?thesis by (simp add: assess_impermanent_loss_risk_def)
next
  case True
  let ?p = "fst (check_il_protection d (il_base_score d, []))"
  let ?s = "fst (check_stable_pair d (check_il_protection d (il_base_score d, [])))"
  have p: "0 \<le> ?p \<and> ?p \<le> 7.5"
    using il_base_score_bounds [OF assms] by (simp add: check_il_protection_fst)
  have s: "0 \<le> ?s \<and> ?s \<le> 7.5"
    using p by (simp add: check_stable_pair_fst min_def)
  show ?thesis
    using s by (simp add: il_score_lp [OF True] check_concentrated_liquidity_fst min_def)
qed

lemma audit_firms_bounds:
  "map_of audit_firms f = Some rep \<Longrightarrow> 0.75 \<le> rep \<and> rep \<le> 0.9"
  by (auto simp: audit_firms_def split: if_splits)

lemma audit_score_bounds:
  assumes "0.75 \<le> rep" "rep \<le> 0.9" "0.5 \<le> af" "af \<le> (1::real)"
  shows "0 \<le> (1 - rep * af) * 10 \<and> (1 - rep * af) * 10 \<le> 10"
proof -
  have "rep * af \<le> 0.9 * 1"
    using assms by (intro mult_mono) simp_all
  moreover have "0 \<le> rep * af"
    using assms by (intro mult_nonneg_nonneg) simp_all
  ultimately show ?thesis by simp
qed

lemma audit_loop_bounds:
  assumes "\<forall>j s n. ad (clock j) s = Inr (Days n) \<longrightarrow> 0 \<le> n"
    and "0 \<le> b" "b \<le> 10" "audit_loop lower ad clock k as b = Inr r"
  shows "0 \<le> r \<and> r \<le> 10"
  using assms(2,3,4)
proof (induction as arbitrary: k b)
  case Nil
  then show ?case by simp
next
  case (Cons a as)
  show ?case
  proof (cases "map_of audit_firms (lower (dget (firm a) []))")
    case None
    then have "audit_loop lower ad clock k as b = Inr r" using Cons.prems(3) by simp
    then show ?thesis using Cons.IH [OF Cons.prems(1,2)] by blast
  next
    case (Some rep)
    note rep = Some
    obtain s where s: "date a = Some s"
      using Cons.prems(3) rep by (cases "date a") simp_all
    obtain dc where dc: "ad (clock k) s = Inr dc"
      using Cons.prems(3) rep s by (cases "ad (clock k) s") simp_all
    let ?af = "case dc of NaN \<Rightarrow> 0.5 | Days n \<Rightarrow> max 0.5 (1 - real_of_int n / 365)"
    let ?sc = "(1 - rep * ?af) * 10"
    have af: "0.5 \<le> ?af \<and> ?af \<le> 1"
    proof (cases dc)
      case (Days n)
      then have "0 \<le> n" using assms(1) dc by blast
      then show ?thesis using Days by simp
    next
      case NaN
      then show ?thesis by simp
    qed
    have sc: "0 \<le> ?sc \<and> ?sc \<le> 10"
      using audit_firms_bounds [OF rep] af by (intro audit_score_bounds) simp_all
    have next_call: "audit_loop lower ad clock (Suc k) as (min b ?sc) = Inr r"
      using Cons.prems(3) rep s dc by (simp add: Let_def)
    have "0 \<le> min b ?sc" "min b ?sc \<le> 10" using sc Cons.prems(1,2) by simp_all
    then show ?thesis using Cons.IH [OF _ _ next_call] by blast
  qed
qed

lemma check_audit_status_bounds:
  assumes "\<forall>j s n. ad (clock j) s = Inr (Days n) \<longrightarrow> 0 \<le> n"
    and "check_audit_status lower ad clock d = Inr st"
  shows "0 \<le> fst st \<and> fst st \<le> 10"
proof (cases "dget (audits d) [] = []")
  case True
  then show ?thesis using assms(2) by (auto simp: check_audit_status_def)
next
  case False
  obtain r where r: "audit_loop lower ad clock 0 (dget (audits d) []) 10 = Inr r"
    using assms(2) False
    by (cases "audit_loop lower ad clock 0 (dget (audits d) []) 10")
       (simp_all add: check_audit_status_def)
  have "fst st = r"
    using assms(2) False r by (auto simp: check_audit_status_def)
  then show ?thesis
    using audit_loop_bounds [OF assms(1) _ _ r] by simp
qed

lemma smart_contract_score_bounds:
  assumes "\<forall>j s n. ad (clock j) s = Inr (Days n) \<longrightarrow> 0 \<le> n"
    and "assess_smart_contract_risk lower ad clock d = Inr m"
  shows "0 \<le> score m \<and> score m \<le> 10"
proof -
  obtain st where st: "check_audit_status lower ad clock d = Inr st"
    using assms(2)
    by (cases "check_audit_status lower ad clock d") (simp_all add: assess_smart_contract_risk_def)
  have m: "m = after_audit_status d st"
    using assms(2) st by (simp add: assess_smart_contract_risk_def)
  have b: "0 \<le> fst st \<and> fst st \<le> 10"
    using check_audit_status_bounds [OF assms(1) st] .
  have "fst st * 0.56 \<le> score m \<and> score m \<le> 10"
    unfolding m using b by (intro after_audit_status_bounds) simp_all
  moreover have "0 \<le> fst st * 0.56" using b by simp
  ultimately show ?thesis by linarith
qed

text \<open>
  Where the ages that pandas returns are never negative (no recognised audit is dated after the
  clock reading), the token volatilities are not negative and the token correlation lies
  between -1 and 1, every one of the eight metrics has its score between 0 and 10 and its
  confidence between 0 and 1.
\<close>

lemma scores_in_range_on_sensible_records:
  assumes "\<forall>j s n. ad (clock j) s = Inr (Days n) \<longrightarrow> 0 \<le> n"
    and "0 \<le> dget (token1_volatility d) 0.5" "0 \<le> dget (token2_volatility d) 0.5"
    and "\<bar>dget (token_correlation d) 0\<bar> \<le> 1"
    and "assess_opportunity lower ad clock d = Inr r"
  shows "list_all (\<lambda>m. 0 \<le> score m \<and> score m \<le> 10 \<and> 0 \<le> confidence m \<and> confidence m \<le> 1)
           (map snd (risk_metrics r))"
proof -
  obtain sc where sc: "assess_smart_contract_risk lower ad clock d = Inr sc"
    and ms: "map snd (risk_metrics r) = sc # other_metrics lower d"
    and o: "overall_score r = calculate_overall_risk (sc # other_metrics lower d)"
    using metrics_of_assessment [OF assms(5)] by blast
  have conf: "0 \<le> confidence m \<and> confidence m \<le> 1"
    if "m \<in> set (sc # other_metrics lower d)" for m
  proof -
    have "0.7 \<le> confidence m \<and> confidence m \<le> 1"
      using assessment_confidences [OF sc] that unfolding list_all_iff by blast
    then show ?thesis by simp
  qed
  have scores: "0 \<le> score m \<and> score m \<le> 10"
    if "m \<in> set (sc # other_metrics lower d)" for m
  proof -
    have "m = sc \<or> m = assess_impermanent_loss_risk d \<or> m = assess_liquidity_risk d \<or>
          m = assess_protocol_risk d \<or> m = assess_market_risk d \<or>
          m = assess_regulatory_risk d \<or> m = assess_oracle_risk lower d \<or>
          m = assess_bridge_risk lower d"
      using that unfolding other_metrics_def by (simp only: set_simps insert_iff empty_iff) blast
    then show ?thesis
    proof (elim disjE)
      assume "m = sc"
      then show ?thesis using smart_contract_score_bounds [OF assms(1) sc] by (simp only:)
    next
      assume "m = assess_impermanent_loss_risk d"
      then show ?thesis using il_score_bounds [OF assms(2,3,4)] by (simp only:)
    next
      assume "m = assess_liquidity_risk d"
      then show ?thesis using liquidity_score_bounds [of d] by (simp only:)
    next
      assume "m = assess_protocol_risk d"
      then show ?thesis using protocol_score_bounds [of d] by (simp only:)
    next
      assume "m = assess_market_risk d"
      then show ?thesis using market_score_bounds [of d] by (simp only:)
    next
      assume "m = assess_regulatory_risk d"
      then show ?thesis using regulatory_score_bounds [of d] by (simp only:)
    next
      assume "m = assess_oracle_risk lower d"
      then show ?thesis using oracle_score_bounds [of lower d] by (simp only:)
    next
      assume "m = assess_bridge_risk lower d"
      then show ?thesis using bridge_score_bounds [of lower d] by (simp only:)
    qed
  qed
  show ?thesis
    unfolding ms list_all_iff
  proof
    fix m assume "m \<in> set (sc # other_metrics lower d)"
    then show "0 \<le> score m \<and> score m \<le> 10 \<and> 0 \<le> confidence m \<and> confidence m \<le> 1"
      using conf [of m] scores [of m] by (simp only:)
  qed
qed

end
